theory Spec2Isabelle
  imports Main "HOL-Library.List_Lexorder" "HOL-Library.Char_ord"
begin

section \<open>Document nodes\<close>

text \<open>
  The stanxml element of \<^verbatim>\<open>gavo.utils.stanxml\<close> as far as the registry code uses it:
  an element has a namespace prefix, a name, attributes and an ordered child sequence;
  character content is a text child.  \<^verbatim>\<open>elem[c1, c2, ...]\<close> appends children (a
  \<^verbatim>\<open>None\<close> is skipped and nested lists are flattened, so every factory below hands over
  a list of nodes), \<^verbatim>\<open>elem(a=v)\<close> sets an attribute, and an attribute set to
  \<^verbatim>\<open>None\<close> is absent.  Dropping of empty elements happens in the serializer and is not
  part of this development: the trees here are the ones the builders return.
\<close>

datatype node =
  Element (prefix: string) (name: string) (attrs: "(string \<times> string) list") (children: "node list")
| Text string

fun setAttr :: "string \<Rightarrow> string option \<Rightarrow> node \<Rightarrow> node" where
  "setAttr k None (Element p n as cs) = Element p n (filter (\<lambda>kv. fst kv \<noteq> k) as) cs"
| "setAttr k (Some v) (Element p n as cs) =
     Element p n (if k \<in> fst ` set as
       then map (\<lambda>kv. if fst kv = k then (k, v) else kv) as
       else as @ [(k, v)]) cs"
| "setAttr k v (Text s) = Text s"

fun addChildren :: "node \<Rightarrow> node list \<Rightarrow> node" where
  "addChildren (Element p n as cs) new = Element p n as (cs @ new)"
| "addChildren (Text s) new = Text s"

fun getAttr :: "node \<Rightarrow> string \<Rightarrow> string option" where
  "getAttr (Element p n as cs) k = map_of as k"
| "getAttr (Text s) k = None"

fun childrenOf :: "node \<Rightarrow> node list" where
  "childrenOf (Element p n as cs) = cs"
| "childrenOf (Text s) = []"

fun nameOf :: "node \<Rightarrow> string" where
  "nameOf (Element p n as cs) = n"
| "nameOf (Text s) = []"

text \<open>Content that may be \<^verbatim>\<open>None\<close>: \<^verbatim>\<open>VOR.description[None]\<close> has no children.\<close>

fun content :: "string option \<Rightarrow> node list" where
  "content None = []"
| "content (Some s) = [Text s]"

fun textOf :: "node \<Rightarrow> string option" where
  "textOf (Element p n as (Text s # cs)) = Some s"
| "textOf (Element p n as cs) = None"
| "textOf (Text s) = Some s"

definition childrenNamed :: "string \<Rightarrow> node \<Rightarrow> node list" where
  "childrenNamed n e = filter (\<lambda>c. nameOf c = n) (childrenOf e)"

section \<open>Exceptions and the reporting sink\<close>

datatype exn =
  NoMetaKey string
| ReportableError string
| KeyError string
| ValueError string
| IndexError
| NotImplementedError string
| SkipThis string
| OtherException string

fun str_exn :: "exn \<Rightarrow> string" where
  "str_exn (NoMetaKey s) = s"
| "str_exn (ReportableError s) = s"
| "str_exn (KeyError s) = s"
| "str_exn (ValueError s) = s"
| "str_exn IndexError = ''string index out of range''"
| "str_exn (NotImplementedError s) = s"
| "str_exn (SkipThis s) = s"
| "str_exn (OtherException s) = s"

text \<open>\<^verbatim>\<open>base.ui\<close>: the messages handed to \<^verbatim>\<open>notifyError\<close> and \<^verbatim>\<open>notifyWarning\<close>, oldest first.\<close>

record ui =
  errors :: "string list"
  warnings :: "string list"

definition notifyError :: "string \<Rightarrow> ui \<Rightarrow> ui" where
  "notifyError msg u = u\<lparr>errors := errors u @ [msg]\<rparr>"


section \<open>List documents (builders.py)\<close>

text \<open>
  What \<^verbatim>\<open>getDCListRecordsElement\<close> reads of a resource object when it reports a failure:
  \<^verbatim>\<open>resob.rd.sourceId\<close>, \<^verbatim>\<open>resob.id\<close> and \<^verbatim>\<open>str(resob)\<close>.
\<close>

record resident =
  rd_sourceId :: string
  res_id :: string
  res_repr :: string

definition OAI_ListRecords :: node where
  "OAI_ListRecords = Element ''oai'' ''ListRecords'' [] []"

text \<open>
  One turn of the loop in \<^verbatim>\<open>getDCListRecordsElement\<close>: the \<^verbatim>\<open>try\<close> body adds the record;
  \<^verbatim>\<open>except base.NoMetaKey\<close> comes first, \<^verbatim>\<open>except Exception\<close> second.  \<^verbatim>\<open>makeRecord\<close>
  is a parameter of the source function as well; it may change the state of the process
  (\<^verbatim>\<open>'st\<close>), which is handed from one record to the next.
\<close>

fun listRecords_step ::
  "('r \<Rightarrow> resident) \<Rightarrow> ('r \<Rightarrow> 's \<Rightarrow> 'st \<Rightarrow> (exn + node) \<times> 'st) \<Rightarrow> 's
     \<Rightarrow> node \<times> ui \<times> 'st \<Rightarrow> 'r \<Rightarrow> node \<times> ui \<times> 'st" where
  "listRecords_step ident makeRecord setNames (recs, u, st) resob =
     (case makeRecord resob setNames st of
        (Inr rec, st') \<Rightarrow> (addChildren recs [rec], u, st')
      | (Inl (NoMetaKey msg), st') \<Rightarrow>
          (recs, notifyError (''Cannot create registry record for '' @ rd_sourceId (ident resob)
             @ ''#'' @ res_id (ident resob) @ '' because mandatory meta '' @ msg
             @ '' is missing'') u, st')
      | (Inl e, st') \<Rightarrow>
          (recs, notifyError (''Cannot create registry record '' @ res_repr (ident resob)
             @ ''.  Reason: '' @ str_exn e) u, st'))"

definition getDCListRecordsElement ::
  "('r \<Rightarrow> resident) \<Rightarrow> ('r \<Rightarrow> 's \<Rightarrow> 'st \<Rightarrow> (exn + node) \<times> 'st) \<Rightarrow> 'r list \<Rightarrow> 's
     \<Rightarrow> ui \<times> 'st \<Rightarrow> (exn + node) \<times> ui \<times> 'st" where
  "getDCListRecordsElement ident makeRecord resobs setNames ust =
     (case foldl (listRecords_step ident makeRecord setNames)
             (OAI_ListRecords, fst ust, snd ust) resobs of
        (recs, u', st') \<Rightarrow> (Inr recs, u', st'))"

text \<open>
  What became of each record of a list build: the resource objects in order, each with the
  outcome of its \<^verbatim>\<open>makeRecord\<close> call in the state its predecessors left.
\<close>

fun recordOutcomes ::
  "('r \<Rightarrow> 's \<Rightarrow> 'st \<Rightarrow> (exn + node) \<times> 'st) \<Rightarrow> 's \<Rightarrow> 'r list \<Rightarrow> 'st \<Rightarrow> ('r \<times> (exn + node)) list" where
  "recordOutcomes makeRecord setNames [] st = []"
| "recordOutcomes makeRecord setNames (r # rs) st =
     (r, fst (makeRecord r setNames st))
     # recordOutcomes makeRecord setNames rs (snd (makeRecord r setNames st))"

text \<open>The message reported for a record that could not be built.\<close>

fun recordFailure :: "resident \<Rightarrow> exn \<Rightarrow> string" where
  "recordFailure i (NoMetaKey msg) =
     ''Cannot create registry record for '' @ rd_sourceId i @ ''#'' @ res_id i
       @ '' because mandatory meta '' @ msg @ '' is missing''"
| "recordFailure i e =
     ''Cannot create registry record '' @ res_repr i @ ''.  Reason: '' @ str_exn e"

definition builtRecords :: "('r \<times> (exn + node)) list \<Rightarrow> node list" where
  "builtRecords outcomes =
     concat (map (\<lambda>(r, res). case res of Inr rec \<Rightarrow> [rec] | Inl e \<Rightarrow> []) outcomes)"

definition failureReports :: "('r \<Rightarrow> resident) \<Rightarrow> ('r \<times> (exn + node)) list \<Rightarrow> string list" where
  "failureReports ident outcomes =
     concat (map (\<lambda>(r, res). case res of Inr rec \<Rightarrow> [] | Inl e \<Rightarrow> [recordFailure (ident r) e])
                 outcomes)"

section \<open>Environment: configuration and external collaborators\<close>

text \<open>
  Columns and input keys (\<^verbatim>\<open>rscdef.Column\<close>), as far as the registry code reads them.
\<close>

record column =
  col_name :: string
  col_quoted :: bool
  col_description :: "string option"
  col_unit :: "string option"
  col_ucd :: "string option"
  col_utype :: "string option"
  col_type :: string
  col_xtype :: "string option"
  col_std :: bool
  col_indexed :: bool
  col_primary :: bool
  col_required :: bool
  col_hidden :: bool
  col_statistics :: "(string \<times> string) list"

record url =
  scheme :: string
  netloc :: string
  path :: string
  params :: string
  query :: string
  fragment :: string

record renderer =
  parameterStyle :: string

subsection \<open>Publications\<close>

text \<open>
  A publication (\<^verbatim>\<open>svcs.Publication\<close>).  \<^verbatim>\<open>pubMeta k\<close> is
  \<^verbatim>\<open>base.getMetaText(publication, k)\<close> (\<^verbatim>\<open>None\<close> when the key has no value),
  \<^verbatim>\<open>pubIterMeta k\<close> the contents of \<^verbatim>\<open>publication.iterMeta(k)\<close> in order.
  \<^verbatim>\<open>inputKeysFor\<close> is what the parameter source of the publication
  (\<^verbatim>\<open>publication.service\<close> if set, else \<^verbatim>\<open>publication.parent\<close>) answers to
  \<^verbatim>\<open>getInputKeysFor(renderer)\<close>, \<^verbatim>\<open>None\<close> when it has no such method.
  \<^verbatim>\<open>pubService\<close> is \<^verbatim>\<open>publication.service\<close>, with the two things
  \<^verbatim>\<open>iterSvcRecs\<close> asks of it.
\<close>

record svcref =
  svc_getURL :: "string \<Rightarrow> string"
  svc_referenceURL :: "string option"

record publication =
  render :: string
  sets :: "string list"
  auxiliary :: bool
  pubMeta :: "string \<Rightarrow> string option"
  pubIterMeta :: "string \<Rightarrow> string list"
  inputKeysFor :: "column list option"
  pubService :: "svcref option"

text \<open>
  Which \<^verbatim>\<open>_makeCapability\<close> a capability maker runs: the base one or an override.
\<close>

datatype makeCapability_impl =
  MC_Base | MC_Plain "string option" | MC_SIA | MC_SCS | MC_SSA | MC_SLAP | MC_TAP
| MC_Registry | MC_Edition

text \<open>
  Everything the registry code asks of the rest of the system: the standard library
  (\<^verbatim>\<open>urllib.parse\<close>), process configuration (\<^verbatim>\<open>base.getConfig\<close>), and the modules
  \<^verbatim>\<open>svcs\<close>, \<^verbatim>\<open>osinter\<close>, \<^verbatim>\<open>dali\<close>, \<^verbatim>\<open>base\<close>.  An external function that can raise
  returns a sum.  \<^verbatim>\<open>switchProtocol\<close> gets whatever \<^verbatim>\<open>accessURL\<close> is, also \<^verbatim>\<open>None\<close>.
  \<^verbatim>\<open>protocolBlocks\<close> stands for the parameter blocks that the \<^verbatim>\<open>_makeCapability\<close>
  overrides of the SIA, SCS, SSA, SLAP and TAP makers append to the base capability:
  they are read off the service's metadata, the configuration and \<^verbatim>\<open>tap_schema\<close>, and
  a mandatory key that is missing raises.  \<^verbatim>\<open>VALIDATING\<close> is the module variable of
  builders.py.  \<^verbatim>\<open>parseSTCS s\<close> is
  \<^verbatim>\<open>stc.astToStan(stc.parseSTCS(s), stc.STC.STCResourceProfile)\<close>;
  \<^verbatim>\<open>getDependencies\<close> is \<^verbatim>\<open>common.getDependencies\<close> on the database as it stands and
  \<^verbatim>\<open>getRD\<close> is \<^verbatim>\<open>base.caches.getRD\<close>, of which only a failure matters here;
  \<^verbatim>\<open>managedAuthorities\<close> is what \<^verbatim>\<open>getManagedAuthorities()\<close> returns; \<^verbatim>\<open>utcnow\<close> is
  the time stamp \<^verbatim>\<open>datetime.datetime.utcnow()\<close> gives, and \<^verbatim>\<open>parseISODT None\<close> is
  \<^verbatim>\<open>utils.parseISODT\<close> of that time stamp.
\<close>

record env =
  longToShort :: "string \<rightharpoonup> string"
  urlparse :: "string \<Rightarrow> url"
  urlunsplit :: "string \<times> string \<times> string \<times> string \<times> string \<Rightarrow> string"
  registerAlternative :: bool
  switchProtocol :: "string option \<Rightarrow> exn + string"
  getRenderer :: "string \<Rightarrow> exn + renderer"
  getUploadKeyFor :: "column \<Rightarrow> column"
  sqltypeToVOTable :: "string \<Rightarrow> exn + string \<times> string option \<times> string option"
  future :: "string list"
  TAP_VERSION :: string
  oaipmhPageSize :: string
  protocolBlocks :: "makeCapability_impl \<Rightarrow> publication \<Rightarrow> exn + node list"
  VALIDATING :: bool
  parseSTCS :: "string \<Rightarrow> exn + node"
  getDependencies :: "string \<Rightarrow> exn + string list"
  getRD :: "string \<Rightarrow> exn option"
  managedAuthorities :: "string set"
  utcnow :: string
  parseISODT :: "string option \<Rightarrow> exn + string"

section \<open>The resolvers\<close>

text \<open>
  Modelled from the spec: \<^verbatim>\<open>utils.buildClassResolver\<close> is not among the sources; only its
  three calls are.  The spec (4.4) gives its contract: handlers are registered under
  their key (a handler whose key is \<^verbatim>\<open>None\<close> is not registered), and
  \<^verbatim>\<open>resolve(key)\<close> returns the registered handler, else the default when there is one,
  else it raises (the callers catch \<^verbatim>\<open>KeyError\<close>).
\<close>

definition registryOf :: "('h \<Rightarrow> string option) \<Rightarrow> 'h list \<Rightarrow> (string \<times> 'h) list" where
  "registryOf key hs = concat (map (\<lambda>h. case key h of None \<Rightarrow> [] | Some k \<Rightarrow> [(k, h)]) hs)"

definition buildClassResolver ::
  "('h \<Rightarrow> string option) \<Rightarrow> 'h list \<Rightarrow> 'h option \<Rightarrow> string \<Rightarrow> exn + 'h" where
  "buildClassResolver key hs dflt k =
     (case map_of (registryOf key hs) k of
        Some h \<Rightarrow> Inr h
      | None \<Rightarrow> (case dflt of Some d \<Rightarrow> Inr d | None \<Rightarrow> Inl (KeyError k)))"

section \<open>Interfaces (capabilities.py)\<close>

text \<open>Left-to-right evaluation of a list of computations; the first exception wins.\<close>

fun sequence :: "(exn + 'a) list \<Rightarrow> exn + 'a list" where
  "sequence [] = Inr []"
| "sequence (x # xs) =
     (case x of
        Inl e \<Rightarrow> Inl e
      | Inr v \<Rightarrow> (case sequence xs of Inl e \<Rightarrow> Inl e | Inr vs \<Rightarrow> Inr (v # vs)))"

text \<open>The element classes of model.py that interfaces and capabilities are made of.\<close>

definition VOR_interface :: node where
  "VOR_interface = Element ''vr'' ''interface'' [] []"

definition VOR_WebBrowser :: node where
  "VOR_WebBrowser = Element ''vr'' ''interface'' [(''xsi_type'', ''vr:WebBrowser'')] []"

definition VOR_WebService :: node where
  "VOR_WebService = Element ''vr'' ''interface'' [(''xsi_type'', ''vr:WebService'')] []"

definition VS_ParamHTTP :: node where
  "VS_ParamHTTP = Element ''vr'' ''interface'' [(''xsi_type'', ''vs:ParamHTTP'')] []"

definition StandardParamHTTP :: node where
  "StandardParamHTTP =
     Element ''vr'' ''interface'' [(''xsi_type'', ''vs:ParamHTTP''), (''role'', ''std'')] []"

definition DaFut_daliInterface :: node where
  "DaFut_daliInterface =
     Element ''vr'' ''interface'' [(''role'', ''std''), (''xsi_type'', ''dachs:DALIInterface'')] []"

definition SIA_interface :: node where
  "SIA_interface =
     Element ''sia'' ''interface'' [(''role'', ''std''), (''xsi_type'', ''vs:ParamHTTP'')] []"

definition SCS_interface :: node where
  "SCS_interface =
     Element ''cs'' ''interface'' [(''role'', ''std''), (''xsi_type'', ''vs:ParamHTTP'')] []"

definition SSAP_interface :: node where
  "SSAP_interface =
     Element ''ssap'' ''interface'' [(''role'', ''std''), (''xsi_type'', ''vs:ParamHTTP'')] []"

definition SLAP_interface :: node where
  "SLAP_interface =
     Element ''vr'' ''interface'' [(''role'', ''std''), (''xsi_type'', ''vs:ParamHTTP'')] []"

definition TR_interface :: node where
  "TR_interface =
     Element ''vr'' ''interface'' [(''role'', ''std''), (''xsi_type'', ''vs:ParamHTTP'')] []"

definition VOG_OAIHTTP :: node where
  "VOG_OAIHTTP = Element ''vr'' ''interface'' [(''xsi_type'', ''vg:OAIHTTP'')] []"

text \<open>A childless element of a plain class, \<^verbatim>\<open>VOR.accessURL\<close>, \<^verbatim>\<open>VS.name\<close> and the like.\<close>

definition elem :: "string \<Rightarrow> string \<Rightarrow> node list \<Rightarrow> node" where
  "elem p n cs = Element p n [] cs"

text \<open>\<^verbatim>\<open>tableset.simpleDataTypeFactory\<close>\<close>

definition VOTABLE_TO_SIMPLE_TYPE_MAP :: "string \<rightharpoonup> string" where
  "VOTABLE_TO_SIMPLE_TYPE_MAP = map_of
     [(''char'', ''char''), (''bytea'', ''char''), (''unicodeChar'', ''char''),
      (''short'', ''integer''), (''int'', ''integer''), (''long'', ''integer''),
      (''float'', ''real''), (''double'', ''real'')]"

definition simpleDataTypeFactory :: "env \<Rightarrow> string \<Rightarrow> exn + node" where
  "simpleDataTypeFactory E dbType =
     (case sqltypeToVOTable E dbType of
        Inl e \<Rightarrow> Inl e
      | Inr (vtype, vlength, xtype) \<Rightarrow>
          let arraysize = (if vlength = Some ''1'' then None else vlength) in
          Inr (addChildren
                (setAttr ''xsi_type'' (Some ''vs:SimpleDataType'')
                  (setAttr ''arraysize'' arraysize (Element ''vs'' ''dataType'' [] [])))
                [Text (case VOTABLE_TO_SIMPLE_TYPE_MAP vtype of None \<Rightarrow> ''char'' | Some t \<Rightarrow> t)]))"

text \<open>\<^verbatim>\<open>_getParamFromColumn\<close> with \<^verbatim>\<open>rootElement=VS.param\<close>, and \<^verbatim>\<open>getInputParamFromColumn\<close>\<close>

definition VS_param :: node where
  "VS_param = Element ''vs'' ''param'' [(''std'', ''false'')] []"

definition getParamFromColumn :: "env \<Rightarrow> column \<Rightarrow> node \<Rightarrow> exn + node" where
  "getParamFromColumn E column rootElement =
     (case simpleDataTypeFactory E (col_type column) of
        Inl e \<Rightarrow> Inl e
      | Inr dataType \<Rightarrow>
          Inr (addChildren rootElement
            [elem ''vs'' ''name'' [Text (col_name column)],
             elem ''vs'' ''description'' (content (col_description column)),
             elem ''vs'' ''unit'' (content (col_unit column)),
             elem ''vs'' ''ucd'' (content (col_ucd column)),
             dataType]))"

definition getInputParamFromColumn :: "env \<Rightarrow> column \<Rightarrow> exn + node" where
  "getInputParamFromColumn E column =
     (case getParamFromColumn E column VS_param of
        Inl e \<Rightarrow> Inl e
      | Inr p \<Rightarrow> Inr (setAttr ''std'' (Some (if col_std column then ''true'' else ''false'')) p))"

definition getInputParams :: "env \<Rightarrow> publication \<Rightarrow> exn + node list" where
  "getInputParams E publication =
     (case getRenderer E (render publication) of
        Inl e \<Rightarrow> Inl e
      | Inr renderer \<Rightarrow>
          (case inputKeysFor publication of
             None \<Rightarrow> Inr []
           | Some keys \<Rightarrow>
               sequence (map (\<lambda>param.
                 getInputParamFromColumn E
                   (if col_type param = ''file'' \<and> parameterStyle renderer = ''dali''
                    then getUploadKeyFor E param else param)) keys)))"

text \<open>
  The short-alias rewrite at the head of \<^verbatim>\<open>InterfaceMaker._makeInterface\<close>.  With no
  \<^verbatim>\<open>accessURL\<close> meta, \<^verbatim>\<open>urlparse(None)\<close> has an empty bytes path, which is no key of the
  vanity map, so nothing is rewritten.  \<^verbatim>\<open>accessURL[-1]\<close> raises on the empty string.
  \<^verbatim>\<open>urlunsplit\<close> gets scheme, netloc, the short path and \<^verbatim>\<open>parts[3:5]\<close>, which are
  params and query.
\<close>

definition rewriteAccessURL :: "env \<Rightarrow> string option \<Rightarrow> exn + string option" where
  "rewriteAccessURL E accessURL =
     (case accessURL of
        None \<Rightarrow> Inr None
      | Some a \<Rightarrow>
          let parts = urlparse E a; localpart = drop 1 (path parts) in
          (case longToShort E localpart of
             None \<Rightarrow> Inr (Some a)
           | Some short \<Rightarrow>
               if a = [] then Inl IndexError
               else
                 let appendChar = (if last a \<in> set ''?&'' then [last a] else [])
                 in Inr (Some (urlunsplit E
                      (scheme parts, netloc parts, short, params parts, query parts)
                      @ appendChar))))"

definition mirrorURL :: "string \<Rightarrow> node" where
  "mirrorURL v = elem ''vr'' ''mirrorURL'' [Text v]"

text \<open>
  \<^verbatim>\<open>InterfaceMaker._makeInterface\<close>.  Of the exceptions of \<^verbatim>\<open>switchProtocol\<close> only
  \<^verbatim>\<open>ValueError\<close> is caught.
\<close>

definition InterfaceMaker_makeInterface :: "env \<Rightarrow> node \<Rightarrow> publication \<Rightarrow> exn + node" where
  "InterfaceMaker_makeInterface E interfaceClass publication =
     (case rewriteAccessURL E (pubMeta publication ''accessURL'') of
        Inl e \<Rightarrow> Inl e
      | Inr accessURL \<Rightarrow>
          let interface = addChildren interfaceClass
                ([addChildren (setAttr ''use'' (pubMeta publication ''urlUse'')
                     (elem ''vr'' ''accessURL'' [])) (content accessURL),
                  setAttr ''standardId'' (pubMeta publication ''securityId'')
                     (elem ''vr'' ''securityMethod'' [])]
                 @ map mirrorURL
                     (filter (\<lambda>v. Some v \<noteq> accessURL) (pubIterMeta publication ''mirrorURL'')))
          in if registerAlternative E
             then (case switchProtocol E accessURL of
                     Inr switched \<Rightarrow> Inr (addChildren interface [mirrorURL switched])
                   | Inl (ValueError m) \<Rightarrow> Inr interface
                   | Inl e \<Rightarrow> Inl e)
             else Inr interface)"

text \<open>
  The interface makers: their renderer, their element class and which
  \<^verbatim>\<open>_makeInterface\<close> they run (the base one or one of the six overrides).
\<close>

datatype makeInterface_impl =
  MI_Base | MI_DALI | MI_WithParams | MI_Edition | MI_TAP | MI_SOAP | MI_OAIHTTP

record interfaceMaker =
  im_renderer :: "string option"
  interfaceClass :: node
  im_impl :: makeInterface_impl

definition mkIM :: "string option \<Rightarrow> node \<Rightarrow> makeInterface_impl \<Rightarrow> interfaceMaker" where
  "mkIM r c i = \<lparr>im_renderer = r, interfaceClass = c, im_impl = i\<rparr>"

definition DALIInterface :: interfaceMaker where
  "DALIInterface = mkIM None DaFut_daliInterface MI_DALI"

definition InterfaceWithParams :: interfaceMaker where
  "InterfaceWithParams = mkIM None VS_ParamHTTP MI_WithParams"

definition TAPInterface :: interfaceMaker where
  "TAPInterface = mkIM (Some ''dali'') TR_interface MI_TAP"

text \<open>Every class deriving from \<^verbatim>\<open>InterfaceMaker\<close>, in the order of the module.\<close>

definition interfaceMakers :: "interfaceMaker list" where
  "interfaceMakers =
     [mkIM None VOR_interface MI_Base,
      mkIM None StandardParamHTTP MI_Base,
      mkIM (Some ''availability'') StandardParamHTTP MI_Base,
      mkIM (Some ''capabilities'') StandardParamHTTP MI_Base,
      mkIM (Some ''tableMetadata'') StandardParamHTTP MI_Base,
      DALIInterface,
      InterfaceWithParams,
      mkIM (Some ''siap.xml'') SIA_interface MI_WithParams,
      mkIM (Some ''siap2.xml'') SIA_interface MI_WithParams,
      mkIM (Some ''scs.xml'') SCS_interface MI_WithParams,
      mkIM (Some ''ssap.xml'') SSAP_interface MI_WithParams,
      mkIM (Some ''slap.xml'') SLAP_interface MI_WithParams,
      mkIM (Some ''dlmeta'') StandardParamHTTP MI_WithParams,
      mkIM (Some ''dlget'') StandardParamHTTP MI_Base,
      mkIM (Some ''dlasync'') StandardParamHTTP MI_Base,
      mkIM (Some ''edition'') VOR_WebBrowser MI_Edition,
      TAPInterface,
      mkIM (Some ''examples'') VOR_WebBrowser MI_Base,
      mkIM (Some ''soap'') VOR_WebService MI_SOAP,
      mkIM (Some ''pubreg.xml'') VOG_OAIHTTP MI_OAIHTTP,
      mkIM None VOR_WebBrowser MI_Base,
      mkIM (Some ''form'') VOR_WebBrowser MI_Base,
      mkIM (Some ''qp'') VOR_WebBrowser MI_Base,
      mkIM (Some ''docform'') VOR_WebBrowser MI_Base,
      mkIM (Some ''fixed'') VOR_WebBrowser MI_Base,
      mkIM (Some ''static'') VOR_WebBrowser MI_Base,
      mkIM (Some ''custom'') VOR_WebBrowser MI_Base,
      mkIM (Some ''volatile'') VOR_WebBrowser MI_Base,
      mkIM (Some ''external'') VOR_WebBrowser MI_Base,
      mkIM (Some ''get'') VOR_WebBrowser MI_Base]"

definition getInterfaceMaker :: "string \<Rightarrow> exn + interfaceMaker" where
  "getInterfaceMaker = buildClassResolver im_renderer interfaceMakers (Some InterfaceWithParams)"

definition daliEndpoints :: "node list" where
  "daliEndpoints =
     [elem ''dachs'' ''endpoint'' [elem ''vr'' ''name'' [Text ''sync'']],
      elem ''dachs'' ''endpoint''
        [elem ''vr'' ''name'' [Text ''async''],
         addChildren (setAttr ''property'' (Some ''http://dc.g-vo.org/static/tap-plan'')
            (elem ''dachs'' ''meta'' [])) [Text ''dachs'']],
      elem ''dachs'' ''endpoint'' [elem ''vr'' ''name'' [Text ''tables'']],
      elem ''dachs'' ''endpoint'' [elem ''vr'' ''name'' [Text ''examples'']]]"

text \<open>Calling an interface maker: \<^verbatim>\<open>__call__\<close> runs the maker's \<^verbatim>\<open>_makeInterface\<close>.\<close>

definition callInterfaceMaker :: "env \<Rightarrow> interfaceMaker \<Rightarrow> publication \<Rightarrow> exn + node" where
  "callInterfaceMaker E m publication =
     (case InterfaceMaker_makeInterface E (interfaceClass m) publication of
        Inl e \<Rightarrow> Inl e
      | Inr res \<Rightarrow>
          (case im_impl m of
             MI_Base \<Rightarrow> Inr res
           | MI_DALI \<Rightarrow>
               if render publication \<noteq> ''dali''
               then Inl (NotImplementedError
                  ''Don't know how to make DALIInterfaces for anything but TAP yet.'')
               else Inr (addChildren (setAttr ''version'' (Some ''1.1'') res) daliEndpoints)
           | MI_WithParams \<Rightarrow>
               (case getInputParams E publication of
                  Inl e \<Rightarrow> Inl e
                | Inr inputParams \<Rightarrow>
                    Inr (addChildren res
                      ([elem ''vs'' ''queryType'' (content (pubMeta publication ''requestMethod'')),
                        elem ''vs'' ''resultType'' (content (pubMeta publication ''resultType''))]
                       @ inputParams)))
           | MI_Edition \<Rightarrow> Inr (setAttr ''role'' (Some ''rendered'') res)
           | MI_TAP \<Rightarrow> Inr (setAttr ''version'' (Some (TAP_VERSION E)) res)
           | MI_SOAP \<Rightarrow>
               (case pubMeta publication ''accessURL'' of
                  None \<Rightarrow> Inl (OtherException ''TypeError'')
                | Some a \<Rightarrow> Inr (addChildren res [elem ''vr'' ''wsdlURL'' [Text (a @ ''?wsdl'')]]))
           | MI_OAIHTTP \<Rightarrow> Inr (setAttr ''role'' (Some ''std'') res)))"

section \<open>Capabilities (capabilities.py)\<close>

definition VOR_capability :: node where
  "VOR_capability = Element ''vr'' ''capability'' [] []"

definition VOG_capability :: node where
  "VOG_capability = Element ''vr'' ''capability'' [(''standardID'', ''ivo://ivoa.net/std/Registry'')] []"

definition VOG_Harvest :: node where
  "VOG_Harvest = Element ''vr'' ''capability''
     [(''standardID'', ''ivo://ivoa.net/std/Registry''), (''xsi_type'', ''vg:Harvest'')] []"

definition SIA_capability :: node where
  "SIA_capability = Element ''vr'' ''capability''
     [(''standardID'', ''ivo://ivoa.net/std/SIA''), (''xsi_type'', ''sia:SimpleImageAccess'')] []"

definition SIA_capability2 :: node where
  "SIA_capability2 = Element ''vr'' ''capability''
     [(''standardID'', ''ivo://ivoa.net/std/SIA#query-2.0''),
      (''xsi_type'', ''sia:SimpleImageAccess'')] []"

definition SCS_capability :: node where
  "SCS_capability = Element ''vr'' ''capability''
     [(''standardID'', ''ivo://ivoa.net/std/ConeSearch''), (''xsi_type'', ''cs:ConeSearch'')] []"

definition SSAP_capability :: node where
  "SSAP_capability = Element ''vr'' ''capability''
     [(''standardID'', ''ivo://ivoa.net/std/SSA''), (''xsi_type'', ''ssap:SimpleSpectralAccess'')] []"

definition SLAP_capability :: node where
  "SLAP_capability = Element ''vr'' ''capability''
     [(''standardID'', ''ivo://ivoa.net/std/SLAP''), (''xsi_type'', ''slap:SimpleLineAccess'')] []"

definition TR_capability :: node where
  "TR_capability = Element ''vr'' ''capability''
     [(''standardID'', ''ivo://ivoa.net/std/TAP''), (''xsi_type'', ''tr:TableAccess'')] []"

definition DOC_capability :: node where
  "DOC_capability = Element ''doc'' ''capability'' [(''xsi_type'', ''doc:Edition'')] []"

definition capabilityWithId :: "string \<Rightarrow> node" where
  "capabilityWithId sid = Element ''vr'' ''capability'' [(''standardID'', sid)] []"

record capabilityMaker =
  cm_renderer :: "string option"
  capabilityClass :: node
  auxiliaryId :: "string option"
  cm_impl :: makeCapability_impl

definition mkCM ::
  "string option \<Rightarrow> node \<Rightarrow> string option \<Rightarrow> makeCapability_impl \<Rightarrow> capabilityMaker" where
  "mkCM r c a i = \<lparr>cm_renderer = r, capabilityClass = c, auxiliaryId = a, cm_impl = i\<rparr>"

definition CapabilityMaker :: capabilityMaker where
  "CapabilityMaker = mkCM None VOR_capability None MC_Base"

text \<open>Every class deriving from \<^verbatim>\<open>CapabilityMaker\<close>, in the order of the module.\<close>

definition capabilityMakers :: "capabilityMaker list" where
  "capabilityMakers =
     [CapabilityMaker,
      mkCM None VOR_capability None (MC_Plain None),
      mkCM (Some ''api'') VOR_capability None MC_Base,
      mkCM (Some ''siap.xml'') SIA_capability (Some ''ivo://ivoa.net/std/SIA#aux'') MC_SIA,
      mkCM (Some ''siap2.xml'') SIA_capability2
        (Some ''ivo://ivoa.net/std/SIA#query-aux-2.0'') MC_SIA,
      mkCM (Some ''scs.xml'') SCS_capability None MC_SCS,
      mkCM (Some ''ssap.xml'') SSAP_capability None MC_SSA,
      mkCM (Some ''slap.xml'') SLAP_capability None MC_SLAP,
      mkCM (Some ''dali'') TR_capability (Some ''ivo://ivoa.net/std/TAP#aux'') MC_TAP,
      mkCM (Some ''pubreg.xml'') VOG_Harvest None MC_Registry,
      mkCM None VOG_capability None (MC_Plain None),
      mkCM (Some ''availability'') VOG_capability None
        (MC_Plain (Some ''ivo://ivoa.net/std/VOSI#availability'')),
      mkCM (Some ''capabilities'') VOG_capability None
        (MC_Plain (Some ''ivo://ivoa.net/std/VOSI#capabilities'')),
      mkCM (Some ''tableMetadata'') VOG_capability None
        (MC_Plain (Some ''ivo://ivoa.net/std/VOSI#tables'')),
      mkCM (Some ''examples'') VOR_capability None
        (MC_Plain (Some ''ivo://ivoa.net/std/DALI#examples'')),
      mkCM (Some ''hips'') VOR_capability None
        (MC_Plain (Some ''ivo://ivoa.net/std/hips#hips-1.0'')),
      mkCM (Some ''soap'') VOR_capability None MC_Base,
      mkCM (Some ''form'') VOR_capability None MC_Base,
      mkCM (Some ''qp'') VOR_capability None MC_Base,
      mkCM (Some ''external'') VOR_capability None MC_Base,
      mkCM (Some ''static'') VOR_capability None MC_Base,
      mkCM (Some ''volatile'') VOR_capability None MC_Base,
      mkCM (Some ''custom'') VOR_capability None MC_Base,
      mkCM (Some ''img.jpeg'') VOR_capability None MC_Base,
      mkCM (Some ''fixed'') VOR_capability None MC_Base,
      mkCM (Some ''docform'') VOR_capability None MC_Base,
      mkCM (Some ''get'') VOR_capability None MC_Base,
      mkCM (Some ''dlmeta'') (capabilityWithId ''ivo://ivoa.net/std/DataLink#links-1.1'')
        None MC_Base,
      mkCM (Some ''dlget'') (capabilityWithId ''ivo://ivoa.net/std/SODA#sync-1.0'') None MC_Base,
      mkCM (Some ''dlasync'') (capabilityWithId ''ivo://ivoa.net/std/SODA#async-1.0'')
        None MC_Base,
      mkCM (Some ''edition'') DOC_capability None MC_Edition]"

text \<open>The capability resolver is built without a default.\<close>

definition getCapabilityMaker :: "string \<Rightarrow> exn + capabilityMaker" where
  "getCapabilityMaker = buildClassResolver cm_renderer capabilityMakers None"

text \<open>\<^verbatim>\<open>CapabilityMaker._getInterfaceElement\<close>, and its override in \<^verbatim>\<open>TAPCapabilityMaker\<close>.\<close>

definition getInterfaceElement :: "env \<Rightarrow> publication \<Rightarrow> exn + node list" where
  "getInterfaceElement E publication =
     (case (if auxiliary publication \<and> render publication = ''dali''
            then Inr TAPInterface
            else getInterfaceMaker (render publication)) of
        Inl e \<Rightarrow> Inl e
      | Inr interfaceMaker \<Rightarrow>
          (case callInterfaceMaker E interfaceMaker publication of
             Inl e \<Rightarrow> Inl e
           | Inr i \<Rightarrow> Inr [i]))"

definition TAP_getInterfaceElement :: "env \<Rightarrow> publication \<Rightarrow> exn + node list" where
  "TAP_getInterfaceElement E publication =
     (case callInterfaceMaker E TAPInterface publication of
        Inl e \<Rightarrow> Inl e
      | Inr i \<Rightarrow>
          if ''dali-interface-in-tap'' \<in> set (future E)
          then (case callInterfaceMaker E DALIInterface publication of
                  Inl e \<Rightarrow> Inl e
                | Inr d \<Rightarrow> Inr [i, d])
          else Inr [i])"

text \<open>\<^verbatim>\<open>CapabilityMaker._makeCapability\<close>: a description and the interface element(s).\<close>

definition CapabilityMaker_makeCapability ::
  "env \<Rightarrow> capabilityMaker \<Rightarrow> publication \<Rightarrow> exn + node" where
  "CapabilityMaker_makeCapability E m publication =
     (case (if cm_impl m = MC_TAP then TAP_getInterfaceElement E publication
            else getInterfaceElement E publication) of
        Inl e \<Rightarrow> Inl e
      | Inr interfaces \<Rightarrow>
          Inr (addChildren (capabilityClass m)
                (elem ''vr'' ''description'' (content (pubMeta publication ''description''))
                 # interfaces)))"

text \<open>
  Calling a capability maker runs its \<^verbatim>\<open>_makeCapability\<close>; every override first calls
  the base method and then adds to its result.
\<close>

definition callCapabilityMaker :: "env \<Rightarrow> capabilityMaker \<Rightarrow> publication \<Rightarrow> exn + node" where
  "callCapabilityMaker E m publication =
     (case CapabilityMaker_makeCapability E m publication of
        Inl e \<Rightarrow> Inl e
      | Inr res \<Rightarrow>
          (case cm_impl m of
             MC_Base \<Rightarrow> Inr res
           | MC_Plain standardId \<Rightarrow> Inr (setAttr ''standardID'' standardId res)
           | MC_Registry \<Rightarrow>
               Inr (addChildren res [elem ''vg'' ''maxRecords'' [Text (oaipmhPageSize E)]])
           | MC_Edition \<Rightarrow>
               Inr (addChildren
                 (addChildren res
                   (map (\<lambda>su. addChildren (setAttr ''role'' (Some ''source'') VOR_WebBrowser)
                                 [elem ''vr'' ''accessURL'' [Text su]])
                        (pubIterMeta publication ''sourceURL'')))
                 [elem ''doc'' ''languageCode''
                    [Text (case pubMeta publication ''languageCode'' of
                             None \<Rightarrow> ''en'' | Some l \<Rightarrow> l)],
                  elem ''doc'' ''locTitle'' (content (pubMeta publication ''locTitle''))])
           | impl \<Rightarrow>
               (case protocolBlocks E impl publication of
                  Inl e \<Rightarrow> Inl e
                | Inr blocks \<Rightarrow> Inr (addChildren res blocks))))"

text \<open>
  \<^verbatim>\<open>getAuxiliaryCapability\<close>: the resolver's \<^verbatim>\<open>KeyError\<close> is not caught here;
  \<^verbatim>\<open>if capMaker.auxiliaryId\<close> is false for \<^verbatim>\<open>None\<close> and for the empty string.
\<close>

definition getAuxiliaryCapability :: "env \<Rightarrow> publication \<Rightarrow> exn + node option" where
  "getAuxiliaryCapability E publication =
     (case getCapabilityMaker (render publication) of
        Inl e \<Rightarrow> Inl e
      | Inr capMaker \<Rightarrow>
          (case auxiliaryId capMaker of
             None \<Rightarrow> Inr None
           | Some aux \<Rightarrow>
               if aux = [] then Inr None
               else (case callCapabilityMaker E CapabilityMaker publication of
                       Inl e \<Rightarrow> Inl e
                     | Inr cap \<Rightarrow> Inr (Some (setAttr ''standardID'' (Some aux) cap)))))"

definition getCapabilityElement :: "env \<Rightarrow> publication \<Rightarrow> exn + node option" where
  "getCapabilityElement E publication =
     (if auxiliary publication then getAuxiliaryCapability E publication
      else (case getCapabilityMaker (render publication) of
              Inl (KeyError k) \<Rightarrow>
                Inl (ReportableError (''Do not know how to produce a capability for the ''
                  @ [CHR 0x27] @ render publication @ [CHR 0x27] @ '' renderer''))
            | Inl e \<Rightarrow> Inl e
            | Inr maker \<Rightarrow>
                (case callCapabilityMaker E maker publication of
                   Inl e \<Rightarrow> Inl e
                 | Inr cap \<Rightarrow> Inr (Some cap))))"

section \<open>Reading a built interface\<close>

text \<open>
  The values of the \<^verbatim>\<open>mirrorURL\<close> children of an interface element, and the value of
  its \<^verbatim>\<open>accessURL\<close> child (\<^verbatim>\<open>None\<close> when it has no content).
\<close>

definition mirrorURLs_of :: "node \<Rightarrow> string option list" where
  "mirrorURLs_of i = map textOf (childrenNamed ''mirrorURL'' i)"

definition accessURL_of :: "node \<Rightarrow> string option" where
  "accessURL_of i = (case childrenNamed ''accessURL'' i of [] \<Rightarrow> None | c # cs \<Rightarrow> textOf c)"

text \<open>A key is registered when some handler declares it.\<close>

definition registered :: "(string \<times> 'h) list \<Rightarrow> string \<Rightarrow> bool" where
  "registered reg k = (k \<in> fst ` set reg)"

section \<open>A sample installation\<close>

text \<open>
  A small concrete environment and a few publications, on which the theorems below are
  instantiated.  \<^verbatim>\<open>exampleSwitch\<close> exchanges \<^verbatim>\<open>http://\<close> and \<^verbatim>\<open>https://\<close> and raises
  \<^verbatim>\<open>ValueError\<close> on anything else; \<^verbatim>\<open>exampleUrlparse\<close> splits scheme, host and path of
  a URL that has neither query nor fragment.
\<close>

definition exampleSwitch :: "string option \<Rightarrow> exn + string" where
  "exampleSwitch u = (case u of
      None \<Rightarrow> Inl (OtherException ''AttributeError'')
    | Some a \<Rightarrow>
        if take 7 a = ''http://'' then Inr (''https://'' @ drop 7 a)
        else if take 8 a = ''https://'' then Inr (''http://'' @ drop 8 a)
        else Inl (ValueError ''Cannot switch protocol''))"

definition exampleUrlparse :: "string \<Rightarrow> url" where
  "exampleUrlparse u =
     (let rest = drop 3 (dropWhile (\<lambda>c. c \<noteq> CHR '':'') u) in
      \<lparr>scheme = takeWhile (\<lambda>c. c \<noteq> CHR '':'') u,
       netloc = takeWhile (\<lambda>c. c \<noteq> CHR ''/'') rest,
       path = dropWhile (\<lambda>c. c \<noteq> CHR ''/'') rest,
       params = [], query = [], fragment = []\<rparr>)"

definition exampleEnv :: env where
  "exampleEnv = \<lparr>longToShort = map_of [(''__system__/tap/run/tap'', ''tap'')],
     urlparse = exampleUrlparse,
     urlunsplit = (\<lambda>(s, n, p, q, f). s @ ''://'' @ n @ ''/'' @ p),
     registerAlternative = True,
     switchProtocol = exampleSwitch,
     getRenderer = (\<lambda>r. Inr \<lparr>parameterStyle = ''dali''\<rparr>),
     getUploadKeyFor = (\<lambda>c. c),
     sqltypeToVOTable = (\<lambda>t. Inr (''char'', Some ''*'', None)),
     future = [],
     TAP_VERSION = ''1.1'',
     oaipmhPageSize = ''500'',
     protocolBlocks = (\<lambda>i p. Inr []),
     VALIDATING = False,
     parseSTCS = (\<lambda>s. if take 8 s = ''Position''
        then Inr (Element ''stc'' ''STCResourceProfile'' [] [Text s])
        else Inl (OtherException ''STCSParseError'')),
     getDependencies = (\<lambda>rdId. Inr []),
     getRD = (\<lambda>rdId. None),
     managedAuthorities = {''org.example''},
     utcnow = ''2023-01-01T00:00:00'',
     parseISODT = (\<lambda>t. case t of None \<Rightarrow> Inr ''2023-01-01T00:00:00'' | Some v \<Rightarrow> Inr v)\<rparr>"

definition examplePub :: "string \<Rightarrow> bool \<Rightarrow> publication" where
  "examplePub r aux = \<lparr>render = r, sets = [''ivo_managed''], auxiliary = aux,
     pubMeta = map_of [(''accessURL'', ''http://dc.example.org/tap''),
                       (''description'', ''Sample access'')],
     pubIterMeta = (\<lambda>k. if k = ''mirrorURL''
        then [''http://dc.example.org/tap'', ''http://mirror.example.org/tap''] else []),
     inputKeysFor = None, pubService = None\<rparr>"

definition exampleInterface :: node where
  "exampleInterface =
     Element ''vr'' ''interface''
       [(''role'', ''std''), (''xsi_type'', ''vs:ParamHTTP''), (''version'', ''1.1'')]
       [Element ''vr'' ''accessURL'' [] [Text ''http://dc.example.org/tap''],
        Element ''vr'' ''securityMethod'' [] [],
        Element ''vr'' ''mirrorURL'' [] [Text ''http://mirror.example.org/tap''],
        Element ''vr'' ''mirrorURL'' [] [Text ''https://dc.example.org/tap'']]"

section \<open>Table sets (tableset.py)\<close>

text \<open>
  Resource descriptors and table definitions, as far as tableset.py reads them.
  \<^verbatim>\<open>rd_title\<close>, \<^verbatim>\<open>rd_description\<close> and \<^verbatim>\<open>rd_utype\<close> are the \<^verbatim>\<open>getMetaText\<close> of the
  RD; \<^verbatim>\<open>td_nrows\<close> is \<^verbatim>\<open>str(tableDef.nrows or "")\<close>; \<^verbatim>\<open>td_adql\<close> is the table's
  \<^verbatim>\<open>adql\<close> attribute, which is true, false or \<^verbatim>\<open>"hidden"\<close>; \<^verbatim>\<open>col_statistics\<close> of a
  column is \<^verbatim>\<open>_serializeFloats(column.getStatistics())\<close>.
\<close>

record rdinfo =
  rd_schema :: string
  rd_title :: "string option"
  rd_description :: "string option"
  rd_utype :: "string option"

record foreignKey =
  destTableName :: string
  fk_source :: "string list"
  fk_dest :: "string list"

datatype adql_flag = AdqlFalse | AdqlTrue | AdqlHidden

record tabledef =
  td_qname :: string
  td_isOutputTableDef :: bool
  td_rd :: "rdinfo option"
  td_adql :: adql_flag
  td_obscoreClause :: bool
  td_title :: "string option"
  td_description :: "string option"
  td_utype :: "string option"
  td_nrows :: string
  td_columns :: "column list"
  td_foreignKeys :: "foreignKey list"

text \<open>\<^verbatim>\<open>str.lower\<close>, on the ASCII letters.\<close>

definition lower_char :: "char \<Rightarrow> char" where
  "lower_char c = (if CHR ''A'' \<le> c \<and> c \<le> CHR ''Z'' then char_of (of_char c + (32::nat)) else c)"

definition lower :: "string \<Rightarrow> string" where
  "lower s = map lower_char s"

definition VS_tableset :: node where
  "VS_tableset = Element ''vs'' ''tableset'' [] []"

definition voTableDataTypeFactory :: "env \<Rightarrow> string \<Rightarrow> string option \<Rightarrow> exn + node" where
  "voTableDataTypeFactory E dbType declaredXtype =
     (case sqltypeToVOTable E dbType of
        Inl e \<Rightarrow> Inl e
      | Inr converted \<Rightarrow>
          (case (if declaredXtype = Some ''adql:REGION''
                 then (''char'', Some ''*'', Some ''adql:REGION'') else converted) of
             (vtype, vlength, xtype) \<Rightarrow>
               Inr (setAttr ''extendedType'' xtype
                     (addChildren
                       (setAttr ''arraysize'' vlength
                         (Element ''vs'' ''dataType'' [(''xsi_type'', ''vs:VOTableType'')] []))
                       [Text vtype]))))"

definition getForeignKeyForForeignKey :: "foreignKey \<Rightarrow> string set \<Rightarrow> node list" where
  "getForeignKeyForForeignKey fk namesInSet =
     (let targetName = lower (destTableName fk) in
      if targetName \<in> namesInSet
      then [elem ''vs'' ''foreignKey''
              (elem ''vs'' ''targetTable'' [Text targetName]
               # map (\<lambda>(fromColName, toColName).
                        elem ''vs'' ''fkColumn''
                          [elem ''vs'' ''fromColumn'' [Text (lower fromColName)],
                           elem ''vs'' ''targetColumn'' [Text (lower toColName)]])
                     (zip (fk_source fk) (fk_dest fk)))]
      else [])"

definition getTableColumnFromColumn :: "env \<Rightarrow> column \<Rightarrow> exn + node" where
  "getTableColumnFromColumn E column =
     (let colName = (if col_quoted column then col_name column else lower (col_name column));
          flags = (if col_indexed column then [''indexed''] else [])
                  @ (if col_primary column then [''primary'']
                     else if \<not> col_required column then [''nullable''] else [])
      in case voTableDataTypeFactory E (col_type column) (col_xtype column) of
           Inl e \<Rightarrow> Inl e
         | Inr dataType \<Rightarrow>
             Inr (foldl (\<lambda>n (k, v). setAttr k (Some v) n)
                   (elem ''vs'' ''column''
                     ([elem ''vs'' ''name'' [Text colName],
                       elem ''vs'' ''description'' (content (col_description column)),
                       elem ''vs'' ''unit'' (content (col_unit column)),
                       elem ''vs'' ''ucd'' (content (col_ucd column)),
                       elem ''vs'' ''utype'' (content (col_utype column)),
                       dataType]
                      @ map (\<lambda>f. elem ''vs'' ''flag'' [Text f]) flags))
                   (col_statistics column)))"

definition getEffectiveTableName :: "tabledef \<Rightarrow> string" where
  "getEffectiveTableName tableDef =
     (if td_isOutputTableDef tableDef then ''output'' else lower (td_qname tableDef))"

definition getTableForTableDef :: "env \<Rightarrow> tabledef \<Rightarrow> string set \<Rightarrow> bool \<Rightarrow> exn + node" where
  "getTableForTableDef E tableDef namesInSet suppressBodies =
     (let name = getEffectiveTableName tableDef;
          type = (if name = ''output'' then Some ''output'' else None);
          res = addChildren (setAttr ''type'' type (elem ''vs'' ''table'' []))
                  [elem ''vs'' ''name'' [Text name],
                   elem ''vs'' ''title'' (content (td_title tableDef)),
                   elem ''vs'' ''description'' (content (td_description tableDef)),
                   elem ''vs'' ''utype'' (content (td_utype tableDef)),
                   elem ''vs'' ''nrows'' [Text (td_nrows tableDef)]]
      in if suppressBodies then Inr res
         else (case sequence (map (getTableColumnFromColumn E)
                       (filter (\<lambda>col. \<not> col_hidden col) (td_columns tableDef))) of
                 Inl e \<Rightarrow> Inl e
               | Inr cols \<Rightarrow>
                   Inr (addChildren res
                     (cols @ concat (map (\<lambda>fk. getForeignKeyForForeignKey fk namesInSet)
                                      (td_foreignKeys tableDef))))))"

text \<open>
  The obscore stub and its RD (\<^verbatim>\<open>_getObscoreStub()\<close>, \<^verbatim>\<open>base.caches.getRD('//obscore')\<close>)
  come from the running system.
\<close>

record obscore =
  obscoreStub :: tabledef
  obscoreRD :: rdinfo

text \<open>
  The \<^verbatim>\<open>for ... else\<close> over the schemas in \<^verbatim>\<open>getTablesetForSchemaCollection\<close>: the first
  schema called \<^verbatim>\<open>ivoa\<close> gets the stub unless it has an \<^verbatim>\<open>ivoa.obscore\<close> table already;
  with no such schema, a schema of its own is appended.
\<close>

fun addObscore :: "obscore \<Rightarrow> (rdinfo \<times> tabledef list) list \<Rightarrow> (rdinfo \<times> tabledef list) list" where
  "addObscore ob [] = [(obscoreRD ob, [obscoreStub ob])]"
| "addObscore ob ((rd, tables) # schemas) =
     (if rd_schema rd = ''ivoa''
      then (if list_ex (\<lambda>td. lower (td_qname td) = ''ivoa.obscore'') tables
            then (rd, tables) # schemas
            else (rd, tables @ [obscoreStub ob]) # schemas)
      else (rd, tables) # addObscore ob schemas)"

definition getTablesetForSchemaCollection ::
  "env \<Rightarrow> obscore \<Rightarrow> (rdinfo \<times> tabledef list) list \<Rightarrow> node \<Rightarrow> bool \<Rightarrow> exn + node" where
  "getTablesetForSchemaCollection E ob schemas rootElement suppressBodies =
     (let allTables = concat (map snd schemas);
          namesInSet = set (map (\<lambda>td. lower (getEffectiveTableName td)) allTables);
          obscorePublished = list_ex td_obscoreClause allTables;
          schemas' = (if obscorePublished then addObscore ob schemas else schemas)
      in case sequence (map (\<lambda>(rd, tables).
                 case sequence (map (\<lambda>td. getTableForTableDef E td namesInSet suppressBodies)
                         tables) of
                   Inl e \<Rightarrow> Inl e
                 | Inr ts \<Rightarrow>
                     Inr (elem ''vs'' ''schema''
                       ([elem ''vs'' ''name'' [Text (rd_schema rd)],
                         elem ''vs'' ''title'' (content (rd_title rd)),
                         elem ''vs'' ''description'' (content (rd_description rd)),
                         elem ''vs'' ''utype'' (content (rd_utype rd))] @ ts)))
               schemas') of
           Inl e \<Rightarrow> Inl e
         | Inr schemaElements \<Rightarrow> Inr (addChildren rootElement schemaElements))"

definition INTERNAL_SCHEMA :: rdinfo where
  "INTERNAL_SCHEMA = \<lparr>rd_schema = ''internal'', rd_title = Some ''Not a Schema'',
     rd_description = Some ''A helper for virtual and temporary tables'', rd_utype = None\<rparr>"

text \<open>
  What \<^verbatim>\<open>tables\<close> is bound to in \<^verbatim>\<open>getTablesetForService\<close>: a list, or a generator
  object.  \<^verbatim>\<open>not tables\<close> is true of the empty list only; a generator object is true
  whether or not it will yield anything.
\<close>

datatype 'a pyseq = PyList "'a list" | PyGenerator "'a list"

fun truthy :: "'a pyseq \<Rightarrow> bool" where
  "truthy (PyList xs) = (xs \<noteq> [])"
| "truthy (PyGenerator xs) = True"

fun items :: "'a pyseq \<Rightarrow> 'a list" where
  "items (PyList xs) = xs"
| "items (PyGenerator xs) = xs"

text \<open>
  The resource handed to \<^verbatim>\<open>getTablesetForService\<close>: a \<^verbatim>\<open>TableDef\<close>, a
  \<^verbatim>\<open>DataDescriptor\<close> (with its \<^verbatim>\<open>iterTableDefs()\<close>), or anything else, which is asked for
  \<^verbatim>\<open>getTableSet()\<close>.  \<^verbatim>\<open>svcs.Service.getTableSet\<close> returns a list;
  \<^verbatim>\<open>ResRec.getTableSet\<close> (nonservice.py) is a generator function over the tables
  named in the \<^verbatim>\<open>tableset\<close> metadata.
\<close>

datatype tableSource =
  IsTableDef tabledef
| IsDataDescriptor "tabledef list"
| HasGetTableSet "tabledef pyseq"

definition ResRec_getTableSet :: "tabledef list \<Rightarrow> tabledef pyseq" where
  "ResRec_getTableSet relatedTables = PyGenerator relatedTables"

text \<open>
  \<^verbatim>\<open>bySchema.setdefault(schema, []).append(t)\<close> together with
  \<^verbatim>\<open>rdForSchema[schema] = rd\<close>: the tables of a schema in the order they came, and the
  RD of the last of them.
\<close>

fun addToSchema ::
  "string \<Rightarrow> rdinfo \<Rightarrow> tabledef \<Rightarrow> (string \<times> rdinfo \<times> tabledef list) list
     \<Rightarrow> (string \<times> rdinfo \<times> tabledef list) list" where
  "addToSchema k rd t [] = [(k, rd, [t])]"
| "addToSchema k rd t ((k', rd', ts) # rest) =
     (if k = k' then (k', rd, ts @ [t]) # rest
      else (k', rd', ts) # addToSchema k rd t rest)"

definition groupBySchema :: "tabledef list \<Rightarrow> (string \<times> rdinfo \<times> tabledef list) list" where
  "groupBySchema tables =
     foldl (\<lambda>acc t. case td_rd t of
                       Some rd \<Rightarrow> addToSchema (rd_schema rd) rd t acc
                     | None \<Rightarrow> addToSchema ''internal'' INTERNAL_SCHEMA t acc)
           [] tables"

definition getTablesetForService ::
  "env \<Rightarrow> obscore \<Rightarrow> tableSource \<Rightarrow> node \<Rightarrow> bool \<Rightarrow> exn + node" where
  "getTablesetForService E ob resource rootElement suppressBodies =
     (let tables =
            (case resource of
               IsTableDef td \<Rightarrow> PyList [td]
             | IsDataDescriptor tds \<Rightarrow> PyList (filter (\<lambda>td. td_adql td = AdqlTrue) tds)
             | HasGetTableSet ts \<Rightarrow> ts)
      in if \<not> truthy tables
         then Inr (addChildren rootElement
                [elem ''vs'' ''schema'' [elem ''vs'' ''name'' [Text ''default'']]])
         else getTablesetForSchemaCollection E ob
                (map (\<lambda>(schemaName, rd, ts). (rd, ts)) (sort_key fst (groupBySchema (items tables))))
                rootElement suppressBodies)"

section \<open>Resource records (builders.py)\<close>




text \<open>
  A resource object: a service, a \<^verbatim>\<open>ResRec\<close>, a table definition, a data descriptor or
  the remainder of a deleted resource.  \<^verbatim>\<open>res_meta k\<close> is \<^verbatim>\<open>base.getMetaText(resob, k)\<close>,
  \<^verbatim>\<open>res_metaValues k\<close> the contents of \<^verbatim>\<open>resob.iterMeta(k)\<close>.  \<^verbatim>\<open>res_built b\<close> is what the
  model-based builder \<^verbatim>\<open>b\<close> of builders.py returns from \<^verbatim>\<open>build(resob)\<close>; the builder
  engine (\<^verbatim>\<open>base.meta.ModelBasedBuilder\<close>) and the metadata store belong to the rest of
  the system.  \<^verbatim>\<open>res_tables\<close> is \<^verbatim>\<open>getTableSet()\<close> of a service, the tables named by
  the \<^verbatim>\<open>tableset\<close> metadata of a \<^verbatim>\<open>ResRec\<close>, \<^verbatim>\<open>iterTableDefs()\<close> of a data descriptor (each
  table once, in the order the code meets them).  \<^verbatim>\<open>res_publicationsForSet\<close> is
  \<^verbatim>\<open>getPublicationsForSet(names, includeDatalink)\<close> of the classes that are not in these
  sources; \<^verbatim>\<open>res_validate\<close> is the exception \<^verbatim>\<open>base.validateStructure\<close> raises, if any;
  \<^verbatim>\<open>res_isBrowseableWith\<close> is \<^verbatim>\<open>None\<close> where the call raises \<^verbatim>\<open>AttributeError\<close>.
\<close>

datatype resob_kind = Service | ResRec | TableDef tabledef | DataDescriptor | DeletedResource

record resob =
  res_ident :: resident
  res_kind :: resob_kind
  resType :: string
  res_meta :: "string \<Rightarrow> string option"
  res_metaValues :: "string \<Rightarrow> string list"
  publications :: "publication list"
  res_publicationsForSet :: "string set \<Rightarrow> bool \<Rightarrow> publication list"
  res_built :: "string \<Rightarrow> exn + node list"
  res_tables :: "tabledef list"
  res_rd :: rdinfo
  limitTo :: "string option"
  res_validate :: "exn option"
  res_isBrowseableWith :: "string \<Rightarrow> bool option"
  res_getURL :: "string \<Rightarrow> string"

text \<open>\<^verbatim>\<open>common.getResType\<close>\<close>

definition getResType :: "resob \<Rightarrow> string" where
  "getResType resob = (case res_meta resob ''resType'' of None \<Rightarrow> resType resob | Some t \<Rightarrow> t)"

text \<open>
  \<^verbatim>\<open>getPublicationsForSet(names)\<close>: the method of \<^verbatim>\<open>ResRec\<close> is in nonservice.py, that of
  the other classes is called with its default \<^verbatim>\<open>includeDatalink=True\<close>.
\<close>

definition ResRec_getPublicationsForSet :: "resob \<Rightarrow> string set \<Rightarrow> publication list" where
  "ResRec_getPublicationsForSet resob names =
     filter (\<lambda>pub. set (sets pub) \<inter> names \<noteq> {}) (publications resob)"

definition getPublicationsForSet :: "resob \<Rightarrow> string set \<Rightarrow> publication list" where
  "getPublicationsForSet resob names =
     (case res_kind resob of
        ResRec \<Rightarrow> ResRec_getPublicationsForSet resob names
      | _ \<Rightarrow> res_publicationsForSet resob names True)"

text \<open>The resource as \<^verbatim>\<open>getTablesetForService\<close> sees it.\<close>

definition tableSourceOf :: "resob \<Rightarrow> exn + tableSource" where
  "tableSourceOf resob =
     (case res_kind resob of
        TableDef td \<Rightarrow> Inr (IsTableDef td)
      | DataDescriptor \<Rightarrow> Inr (IsDataDescriptor (res_tables resob))
      | ResRec \<Rightarrow> Inr (HasGetTableSet (ResRec_getTableSet (res_tables resob)))
      | Service \<Rightarrow> Inr (HasGetTableSet (PyList (res_tables resob)))
      | DeletedResource \<Rightarrow> Inl (OtherException ''AttributeError''))"

definition tablesetFor :: "env \<Rightarrow> obscore \<Rightarrow> resob \<Rightarrow> exn + node" where
  "tablesetFor E ob resob =
     (case tableSourceOf resob of
        Inl e \<Rightarrow> Inl e
      | Inr src \<Rightarrow> getTablesetForService E ob src VS_tableset False)"

text \<open>
  \<^verbatim>\<open>ResourceMaker._loadDependencies\<close>.  The cache, an attribute the code sets on
  \<^verbatim>\<open>resob.rd\<close>, is a map from the RD to its dependencies.
\<close>

type_synonym depcache = "string \<rightharpoonup> string list"

fun loadAll :: "env \<Rightarrow> string list \<Rightarrow> exn option" where
  "loadAll E [] = None"
| "loadAll E (dep # deps) = (case getRD E dep of Some e \<Rightarrow> Some e | None \<Rightarrow> loadAll E deps)"

definition loadDependencies :: "env \<Rightarrow> resob \<Rightarrow> depcache \<Rightarrow> exn option \<times> depcache" where
  "loadDependencies E resob cache =
     (let rdId = rd_sourceId (res_ident resob) in
      case cache rdId of
        None \<Rightarrow>
          (case getDependencies E rdId of
             Inl e \<Rightarrow> (Some e, cache)
           | Inr deps \<Rightarrow> (loadAll E deps, cache(rdId \<mapsto> deps)))
      | Some deps \<Rightarrow> (loadAll E deps, cache))"

text \<open>The resource classes of model.py; all of them are called \<^verbatim>\<open>Resource\<close>.\<close>

definition resourceOfType :: "string option \<Rightarrow> node" where
  "resourceOfType t = setAttr ''xsi_type'' t (Element ''vr'' ''Resource'' [] [])"

definition RI_Resource :: node where
  "RI_Resource = Element ''ri'' ''Resource'' [] []"

definition VS_DataService :: node where
  "VS_DataService = resourceOfType (Some ''vs:DataService'')"

definition VS_CatalogService :: node where
  "VS_CatalogService = resourceOfType (Some ''vs:CatalogService'')"

definition VS_CatalogResource :: node where
  "VS_CatalogResource = resourceOfType (Some ''vs:CatalogResource'')"

definition VOG_Resource :: node where
  "VOG_Resource = setAttr ''xsi_type'' (Some ''vg:Registry'') RI_Resource"

definition VOG_Authority :: node where
  "VOG_Authority = setAttr ''xsi_type'' (Some ''vg:Authority'') RI_Resource"

definition VOR_Organisation :: node where
  "VOR_Organisation = resourceOfType (Some ''vr:Organisation'')"

definition VSTD_Standard :: node where
  "VSTD_Standard = setAttr ''xsi_type'' (Some ''vstd:Standard'') RI_Resource"

definition DOC_Document :: node where
  "DOC_Document = setAttr ''xsi_type'' (Some ''doc:Document'') RI_Resource"

fun setPrefix :: "string \<Rightarrow> node \<Rightarrow> node" where
  "setPrefix q (Element p n as cs) = Element q n as cs"
| "setPrefix q (Text s) = Text s"

text \<open>
  \<^verbatim>\<open>ResourceMaker._makeResource\<close>, with \<^verbatim>\<open>getResourceArgs\<close>.
  \<^verbatim>\<open>str(resob.getMeta("validatedBy"))\<close> is \<^verbatim>\<open>"None"\<close> when there is no such meta.
\<close>

definition ResourceMaker_makeResource ::
  "env \<Rightarrow> node \<Rightarrow> resob \<Rightarrow> string set \<Rightarrow> depcache \<Rightarrow> (exn + node) \<times> depcache" where
  "ResourceMaker_makeResource E resourceClass resob setNames cache =
     (case loadDependencies E resob cache of
        (Some e, cache') \<Rightarrow> (Inl e, cache')
      | (None, cache') \<Rightarrow>
          (case res_built resob ''_vrResourceBuilder'' of
             Inl e \<Rightarrow> (Inl e, cache')
           | Inr nodes \<Rightarrow>
               (Inr (setPrefix ''ri''
                  (addChildren
                    (setAttr ''status'' (res_meta resob ''status'')
                      (setAttr ''updated'' (res_meta resob ''_metadataUpdated'')
                        (setAttr ''created'' (res_meta resob ''creationDate'') resourceClass)))
                    (addChildren
                       (setAttr ''validatedBy''
                          (Some (case res_meta resob ''validatedBy'' of
                                   None \<Rightarrow> ''None'' | Some v \<Rightarrow> v))
                          (elem ''vr'' ''validationLevel'' []))
                       (content (res_meta resob ''validationLevel''))
                     # nodes))),
                cache')))"

text \<open>A capability that is \<^verbatim>\<open>None\<close> adds nothing.\<close>

definition presentCapabilities :: "node option list \<Rightarrow> node list" where
  "presentCapabilities caps = concat (map (\<lambda>c. case c of None \<Rightarrow> [] | Some n \<Rightarrow> [n]) caps)"

definition capabilitiesFor :: "env \<Rightarrow> resob \<Rightarrow> string set \<Rightarrow> exn + node option list" where
  "capabilitiesFor E resob setNames =
     sequence (map (getCapabilityElement E) (getPublicationsForSet resob setNames))"

text \<open>\<^verbatim>\<open>ServiceResourceMaker._makeResource\<close>: the parent's result, rights, capabilities.\<close>

definition ServiceResourceMaker_makeResource ::
  "env \<Rightarrow> node \<Rightarrow> resob \<Rightarrow> string set \<Rightarrow> depcache \<Rightarrow> (exn + node) \<times> depcache" where
  "ServiceResourceMaker_makeResource E resourceClass service setNames cache =
     (case ResourceMaker_makeResource E resourceClass service setNames cache of
        (Inl e, cache') \<Rightarrow> (Inl e, cache')
      | (Inr res, cache') \<Rightarrow>
          (case res_built service ''_rightsBuilder'' of
             Inl e \<Rightarrow> (Inl e, cache')
           | Inr rights \<Rightarrow>
               (case capabilitiesFor E service setNames of
                  Inl e \<Rightarrow> (Inl e, cache')
                | Inr caps \<Rightarrow>
                    (Inr (addChildren (addChildren res rights) (presentCapabilities caps)),
                     cache'))))"

text \<open>\<^verbatim>\<open>DataServiceResourceMaker._makeResource\<close>\<close>

definition DataServiceResourceMaker_makeResource ::
  "env \<Rightarrow> node \<Rightarrow> resob \<Rightarrow> string set \<Rightarrow> depcache \<Rightarrow> (exn + node) \<times> depcache" where
  "DataServiceResourceMaker_makeResource E resourceClass service setNames cache =
     (case ServiceResourceMaker_makeResource E resourceClass service setNames cache of
        (Inl e, cache') \<Rightarrow> (Inl e, cache')
      | (Inr res, cache') \<Rightarrow>
          (case res_built service ''_orgMetaBuilder'' of
             Inl e \<Rightarrow> (Inl e, cache')
           | Inr org \<Rightarrow>
               (case res_built service ''_coverageMetaBuilder'' of
                  Inl e \<Rightarrow> (Inl e, cache')
                | Inr coverage \<Rightarrow> (Inr (addChildren res (org @ coverage)), cache'))))"

text \<open>\<^verbatim>\<open>CatalogServiceResourceMaker._makeResource\<close>\<close>

definition CatalogServiceResourceMaker_makeResource ::
  "env \<Rightarrow> obscore \<Rightarrow> node \<Rightarrow> resob \<Rightarrow> string set \<Rightarrow> depcache \<Rightarrow> (exn + node) \<times> depcache" where
  "CatalogServiceResourceMaker_makeResource E ob resourceClass service setNames cache =
     (case DataServiceResourceMaker_makeResource E resourceClass service setNames cache of
        (Inl e, cache') \<Rightarrow> (Inl e, cache')
      | (Inr res, cache') \<Rightarrow>
          (case tablesetFor E ob service of
             Inl e \<Rightarrow> (Inl e, cache')
           | Inr tableset \<Rightarrow> (Inr (addChildren res [tableset]), cache')))"

text \<open>\<^verbatim>\<open>RegistryResourceMaker._makeResource\<close>\<close>

definition RegistryResourceMaker_makeResource ::
  "env \<Rightarrow> obscore \<Rightarrow> node \<Rightarrow> resob \<Rightarrow> string set \<Rightarrow> depcache \<Rightarrow> (exn + node) \<times> depcache" where
  "RegistryResourceMaker_makeResource E ob resourceClass registry setNames cache =
     (case ServiceResourceMaker_makeResource E resourceClass registry setNames cache of
        (Inl e, cache') \<Rightarrow> (Inl e, cache')
      | (Inr res, cache') \<Rightarrow>
          (case res_built registry ''_registryMetaBuilder'' of
             Inl e \<Rightarrow> (Inl e, cache')
           | Inr managed \<Rightarrow>
               (case tablesetFor E ob registry of
                  Inl e \<Rightarrow> (Inl e, cache')
                | Inr tableset \<Rightarrow>
                    (Inr (addChildren res
                       (elem ''vg'' ''full''
                          [Text (case res_meta registry ''full'' of
                                   None \<Rightarrow> ''false'' | Some f \<Rightarrow> f)]
                        # managed @ [tableset])),
                     cache'))))"

text \<open>
  The makers that add one thing to the base record: \<^verbatim>\<open>OrgResourceMaker\<close>,
  \<^verbatim>\<open>StandardsResourceMaker\<close> (a builder's output) and \<^verbatim>\<open>AuthResourceMaker\<close>.
\<close>

definition BuilderResourceMaker_makeResource ::
  "env \<Rightarrow> string \<Rightarrow> node \<Rightarrow> resob \<Rightarrow> string set \<Rightarrow> depcache \<Rightarrow> (exn + node) \<times> depcache" where
  "BuilderResourceMaker_makeResource E builder resourceClass registry setNames cache =
     (case ResourceMaker_makeResource E resourceClass registry setNames cache of
        (Inl e, cache') \<Rightarrow> (Inl e, cache')
      | (Inr res, cache') \<Rightarrow>
          (case res_built registry builder of
             Inl e \<Rightarrow> (Inl e, cache')
           | Inr nodes \<Rightarrow> (Inr (addChildren res nodes), cache')))"

definition AuthResourceMaker_makeResource ::
  "env \<Rightarrow> node \<Rightarrow> resob \<Rightarrow> string set \<Rightarrow> depcache \<Rightarrow> (exn + node) \<times> depcache" where
  "AuthResourceMaker_makeResource E resourceClass registry setNames cache =
     (case ResourceMaker_makeResource E resourceClass registry setNames cache of
        (Inl e, cache') \<Rightarrow> (Inl e, cache')
      | (Inr res, cache') \<Rightarrow>
          (Inr (addChildren res
             [addChildren
                (setAttr ''ivoId'' (res_meta registry ''managingOrg.ivo-id'')
                   (elem ''vg'' ''managingOrg'' []))
                (content (res_meta registry ''managingOrg''))]),
           cache'))"

text \<open>
  \<^verbatim>\<open>DataCollectionResourceMaker._makeResourceForSchemas\<close>, which the makers for tables
  and data descriptors call with the one schema of their RD.
\<close>

definition makeResourceForSchemas ::
  "env \<Rightarrow> obscore \<Rightarrow> node \<Rightarrow> resob \<Rightarrow> (rdinfo \<times> tabledef list) list \<Rightarrow> string set \<Rightarrow> depcache
     \<Rightarrow> (exn + node) \<times> depcache" where
  "makeResourceForSchemas E ob resourceClass metaCarrier schemas setNames cache =
     (case ResourceMaker_makeResource E resourceClass metaCarrier setNames cache of
        (Inl e, cache') \<Rightarrow> (Inl e, cache')
      | (Inr res, cache') \<Rightarrow>
          (case capabilitiesFor E metaCarrier setNames of
             Inl e \<Rightarrow> (Inl e, cache')
           | Inr caps \<Rightarrow>
               (case res_built metaCarrier ''_orgMetaBuilder'' of
                  Inl e \<Rightarrow> (Inl e, cache')
                | Inr org \<Rightarrow>
                    (case res_built metaCarrier ''_coverageMetaBuilder'' of
                       Inl e \<Rightarrow> (Inl e, cache')
                     | Inr coverage \<Rightarrow>
                         (case getTablesetForSchemaCollection E ob schemas VS_tableset False of
                            Inl e \<Rightarrow> (Inl e, cache')
                          | Inr tableset \<Rightarrow>
                              (Inr (addChildren res
                                 (presentCapabilities caps @ org @ coverage @ [tableset])),
                               cache'))))))"

text \<open>The resource makers: resource type, element class, and which \<^verbatim>\<open>_makeResource\<close>.\<close>

datatype makeResource_impl =
  MR_Base | MR_Service | MR_DataService | MR_CatalogService | MR_Registry | MR_Org | MR_Auth
| MR_Standards | MR_Deleted | MR_Table | MR_Data

record resourceMaker =
  rm_resType :: "string option"
  resourceClass :: node
  rm_impl :: makeResource_impl

definition mkRM :: "string option \<Rightarrow> node \<Rightarrow> makeResource_impl \<Rightarrow> resourceMaker" where
  "mkRM t c i = \<lparr>rm_resType = t, resourceClass = c, rm_impl = i\<rparr>"

definition resourceMakers :: "resourceMaker list" where
  "resourceMakers =
     [mkRM None RI_Resource MR_Base,
      mkRM (Some ''nonTabularService'') VS_DataService MR_Service,
      mkRM (Some ''dataService'') VS_DataService MR_DataService,
      mkRM (Some ''catalogService'') VS_CatalogService MR_CatalogService,
      mkRM (Some ''registry'') VOG_Resource MR_Registry,
      mkRM (Some ''organization'') VOR_Organisation MR_Org,
      mkRM (Some ''authority'') VOG_Authority MR_Auth,
      mkRM (Some ''standard'') VSTD_Standard MR_Standards,
      mkRM (Some ''document'') DOC_Document MR_CatalogService,
      mkRM (Some ''deleted'') RI_Resource MR_Deleted,
      mkRM None VS_CatalogResource MR_Base,
      mkRM (Some ''table'') VS_CatalogResource MR_Table,
      mkRM (Some ''data'') VS_CatalogResource MR_Data]"

definition getResourceMaker :: "string \<Rightarrow> exn + resourceMaker" where
  "getResourceMaker = buildClassResolver rm_resType resourceMakers None"

text \<open>
  Calling a resource maker.  \<^verbatim>\<open>DeletedResourceMaker\<close> returns the empty list without
  calling its parent; every other maker returns one element.
\<close>

definition single :: "(exn + node) \<times> depcache \<Rightarrow> (exn + node list) \<times> depcache" where
  "single r = (case r of (Inl e, c) \<Rightarrow> (Inl e, c) | (Inr n, c) \<Rightarrow> (Inr [n], c))"

definition callResourceMaker ::
  "env \<Rightarrow> obscore \<Rightarrow> resourceMaker \<Rightarrow> resob \<Rightarrow> string set \<Rightarrow> depcache
     \<Rightarrow> (exn + node list) \<times> depcache" where
  "callResourceMaker E ob m resob setNames cache =
     (case rm_impl m of
        MR_Base \<Rightarrow> single (ResourceMaker_makeResource E (resourceClass m) resob setNames cache)
      | MR_Service \<Rightarrow>
          single (ServiceResourceMaker_makeResource E (resourceClass m) resob setNames cache)
      | MR_DataService \<Rightarrow>
          single (DataServiceResourceMaker_makeResource E (resourceClass m) resob setNames cache)
      | MR_CatalogService \<Rightarrow>
          single (CatalogServiceResourceMaker_makeResource E ob (resourceClass m) resob setNames cache)
      | MR_Registry \<Rightarrow>
          single (RegistryResourceMaker_makeResource E ob (resourceClass m) resob setNames cache)
      | MR_Org \<Rightarrow>
          single (BuilderResourceMaker_makeResource E ''_orgMetaBuilder'' (resourceClass m)
                 resob setNames cache)
      | MR_Auth \<Rightarrow> single (AuthResourceMaker_makeResource E (resourceClass m) resob setNames cache)
      | MR_Standards \<Rightarrow>
          single (BuilderResourceMaker_makeResource E ''_standardsMetaBuilder'' (resourceClass m)
                 resob setNames cache)
      | MR_Deleted \<Rightarrow> (Inr [], cache)
      | MR_Table \<Rightarrow>
          (case res_kind resob of
             TableDef td \<Rightarrow>
               single (makeResourceForSchemas E ob (resourceClass m) resob [(res_rd resob, [td])]
                      setNames cache)
           | _ \<Rightarrow> (Inl (OtherException ''AttributeError''), cache))
      | MR_Data \<Rightarrow>
          single (makeResourceForSchemas E ob (resourceClass m) resob
                 [(res_rd resob, res_tables resob)] setNames cache))"

text \<open>
  \<^verbatim>\<open>getVORMetadataElement\<close>, \<^verbatim>\<open>getResourceElement\<close> and \<^verbatim>\<open>getVOResourceElement\<close>.  The
  resolver's \<^verbatim>\<open>KeyError\<close> for an unknown resource type is not caught.
\<close>

definition getVORMetadataElement ::
  "env \<Rightarrow> obscore \<Rightarrow> resob \<Rightarrow> string set \<Rightarrow> depcache \<Rightarrow> (exn + node list) \<times> depcache" where
  "getVORMetadataElement E ob resob setNames cache =
     (case getResourceMaker (getResType resob) of
        Inl e \<Rightarrow> (Inl e, cache)
      | Inr maker \<Rightarrow> callResourceMaker E ob maker resob setNames cache)"

definition getResourceElement ::
  "resob \<Rightarrow> string set \<Rightarrow> (resob \<Rightarrow> string set \<Rightarrow> depcache \<Rightarrow> (exn + node list) \<times> depcache)
     \<Rightarrow> depcache \<Rightarrow> (exn + node) \<times> depcache" where
  "getResourceElement resob setNames metadataMaker cache =
     (let status = (if res_meta resob ''status'' = Some ''deleted'' then Some ''deleted'' else None)
      in case res_built resob ''_oaiHeaderBuilder'' of
           Inl e \<Rightarrow> (Inl e, cache)
         | Inr header \<Rightarrow>
             (case metadataMaker resob setNames cache of
                (Inl e, cache') \<Rightarrow> (Inl e, cache')
              | (Inr metadata, cache') \<Rightarrow>
                  (Inr (elem ''oai'' ''record''
                     [addChildren (setAttr ''status'' status (elem ''oai'' ''header'' [])) header,
                      elem ''oai'' ''metadata'' metadata]),
                   cache')))"

definition getVOResourceElement ::
  "env \<Rightarrow> obscore \<Rightarrow> resob \<Rightarrow> string set \<Rightarrow> depcache \<Rightarrow> (exn + node) \<times> depcache" where
  "getVOResourceElement E ob resob setNames cache =
     getResourceElement resob setNames (getVORMetadataElement E ob) cache"

definition getDCMetadataElement ::
  "resob \<Rightarrow> string set \<Rightarrow> depcache \<Rightarrow> (exn + node list) \<times> depcache" where
  "getDCMetadataElement resob setNames cache =
     (case res_built resob ''_dcBuilder'' of
        Inl e \<Rightarrow> (Inl e, cache)
      | Inr nodes \<Rightarrow> (Inr [elem ''oai_dc'' ''dc'' nodes], cache))"

definition getDCResourceElement ::
  "resob \<Rightarrow> string set \<Rightarrow> depcache \<Rightarrow> (exn + node) \<times> depcache" where
  "getDCResourceElement resob setNames cache =
     getResourceElement resob setNames getDCMetadataElement cache"

definition getVOListRecordsElement ::
  "env \<Rightarrow> obscore \<Rightarrow> resob list \<Rightarrow> string set \<Rightarrow> ui \<times> depcache
     \<Rightarrow> (exn + node) \<times> ui \<times> depcache" where
  "getVOListRecordsElement E ob resobs setNames =
     getDCListRecordsElement res_ident (getVOResourceElement E ob) resobs setNames"

section \<open>Records for the service list (publication.py)\<close>


















section \<open>Notions used in the statements\<close>

text \<open>
  A computation on the dependency cache is settled when running it again, in the cache
  the first run left, gives the same result and leaves the cache as it is.
\<close>

definition settled :: "(depcache \<Rightarrow> 'a \<times> depcache) \<Rightarrow> bool" where
  "settled F = (\<forall>c. F (snd (F c)) = F c)"



section \<open>Sample resources\<close>

definition exampleTable :: tabledef where
  "exampleTable = \<lparr>td_qname = ''ex.Main'', td_isOutputTableDef = False,
     td_rd = Some \<lparr>rd_schema = ''ex'', rd_title = Some ''Example'', rd_description = None,
                   rd_utype = None\<rparr>,
     td_adql = AdqlTrue, td_obscoreClause = False, td_title = Some ''Main table'',
     td_description = None, td_utype = None, td_nrows = ''42'', td_columns = [],
     td_foreignKeys = []\<rparr>"

definition exampleObscore :: obscore where
  "exampleObscore = \<lparr>obscoreStub = exampleTable\<lparr>td_qname := ''ivoa.obscore''\<rparr>,
     obscoreRD = \<lparr>rd_schema = ''ivoa'', rd_title = None, rd_description = None, rd_utype = None\<rparr>\<rparr>"

definition exampleResource :: "resob_kind \<Rightarrow> string \<Rightarrow> string \<Rightarrow> publication list \<Rightarrow> resob" where
  "exampleResource k t ivoid pubs =
     \<lparr>res_ident = \<lparr>rd_sourceId = ''ex/q'', res_id = ''svc'', res_repr = ''<Service svc>''\<rparr>,
      res_kind = k, resType = t,
      res_meta = map_of [(''identifier'', ivoid), (''title'', ''An example''),
                         (''creationDate'', ''2020-01-01T00:00:00'')],
      res_metaValues = (\<lambda>k. if k = ''creator.name'' then [''Doe, J.; et al.''] else []),
      publications = pubs,
      res_publicationsForSet = (\<lambda>names includeDatalink.
         filter (\<lambda>pub. set (sets pub) \<inter> names \<noteq> {}) pubs),
      res_built = (\<lambda>b. if b = ''_vrResourceBuilder''
         then Inr [Element ''vr'' ''title'' [] [Text ''An example'']]
         else if b = ''_rightsBuilder'' then Inr [Element ''vr'' ''rights'' [] [Text ''public'']]
         else Inr []),
      res_tables = [exampleTable],
      res_rd = \<lparr>rd_schema = ''ex'', rd_title = Some ''Example'', rd_description = None,
                 rd_utype = None\<rparr>,
      limitTo = None, res_validate = None,
      res_isBrowseableWith = (\<lambda>r. Some False),
      res_getURL = (\<lambda>r. ''/ex/q/svc/'' @ r)\<rparr>"

definition noMessages :: ui where
  "noMessages = \<lparr>errors = [], warnings = []\<rparr>"

text \<open>A catalogue service with one TAP publication in the set \<^verbatim>\<open>ivo_managed\<close>.\<close>

definition exampleCatalogService :: resob where
  "exampleCatalogService =
     exampleResource Service ''catalogService'' ''ivo://org.example/ex/svc''
       [examplePub ''dali'' False]"

definition exampleDocument :: node where
  "exampleDocument =
     Element ''ri'' ''Resource''
       [(''xsi_type'', ''vs:CatalogService''), (''created'', ''2020-01-01T00:00:00'')]
       [Element ''vr'' ''validationLevel'' [(''validatedBy'', ''None'')] [],
        Element ''vr'' ''title'' [] [Text ''An example''],
        Element ''vr'' ''rights'' [] [Text ''public''],
        Element ''vr'' ''capability''
          [(''standardID'', ''ivo://ivoa.net/std/TAP''), (''xsi_type'', ''tr:TableAccess'')]
          [Element ''vr'' ''description'' [] [Text ''Sample access''], exampleInterface],
        Element ''vs'' ''tableset'' []
          [Element ''vs'' ''schema'' []
            [Element ''vs'' ''name'' [] [Text ''ex''],
             Element ''vs'' ''title'' [] [Text ''Example''],
             Element ''vs'' ''description'' [] [],
             Element ''vs'' ''utype'' [] [],
             Element ''vs'' ''table'' []
              [Element ''vs'' ''name'' [] [Text ''ex.main''],
               Element ''vs'' ''title'' [] [Text ''Main table''],
               Element ''vs'' ''description'' [] [],
               Element ''vs'' ''utype'' [] [],
               Element ''vs'' ''nrows'' [] [Text ''42'']]]]]"





text \<open>Five records to list, of which the third has no title.\<close>

definition exampleIdent :: "nat \<Rightarrow> resident" where
  "exampleIdent i = \<lparr>rd_sourceId = ''ex/q'', res_id = replicate i (CHR ''I''),
     res_repr = ''<Service>''\<rparr>"

definition exampleMakeRecord :: "nat \<Rightarrow> string set \<Rightarrow> unit \<Rightarrow> (exn + node) \<times> unit" where
  "exampleMakeRecord i setNames st =
     (if i = 3 then Inl (NoMetaKey ''title'')
      else Inr (Element ''oai'' ''record'' [] [Text (replicate i (CHR ''I''))]), st)"

section \<open>Theorems\<close>

subsection \<open>List documents\<close>

lemma listRecords_step_cases:
  "listRecords_step ident mk s (recs, u, st) r =
     (case fst (mk r s st) of
        Inr rec \<Rightarrow> (addChildren recs [rec], u, snd (mk r s st))
      | Inl e \<Rightarrow> (recs, notifyError (recordFailure (ident r) e) u, snd (mk r s st)))"
proof (cases "mk r s st")
  case (Pair res st')
  then show ?thesis
  proof (cases res)
    case (Inl e)
    with Pair show ?thesis by (cases e) simp_all
  next
    case (Inr rec)
    with Pair show ?thesis by simp
  qed
qed

lemma listRecords_foldl:
  "\<exists>st'. foldl (listRecords_step ident mk s) (Element p n as cs, u, st) rs =
     (Element p n as (cs @ builtRecords (recordOutcomes mk s rs st)),
      u\<lparr>errors := errors u @ failureReports ident (recordOutcomes mk s rs st)\<rparr>, st')"
proof (induction rs arbitrary: cs u st)
  case Nil
  then show ?case by (simp add: builtRecords_def failureReports_def)
next
  case (Cons r rs)
  show ?case
  proof (cases "fst (mk r s st)")
    case (Inl e)
    then show ?thesis
      using Cons.IH [of cs "notifyError (recordFailure (ident r) e) u" "snd (mk r s st)"]
      by (simp add: listRecords_step_cases builtRecords_def failureReports_def notifyError_def
            del: listRecords_step.simps)
  next
    case (Inr rec)
    then show ?thesis
      using Cons.IH [of "cs @ [rec]" u "snd (mk r s st)"]
      by (simp add: listRecords_step_cases builtRecords_def failureReports_def
            del: listRecords_step.simps)
  qed
qed

lemma recordOutcomes_all: "map fst (recordOutcomes mk s rs st) = rs"
  by (induction rs arbitrary: st) simp_all

text \<open>
  C2.  A list-records build over any sequence of resource objects returns normally
  (it never raises), whatever \<^verbatim>\<open>makeRecord\<close> does.  Every resource object is tried; the
  returned \<^verbatim>\<open>ListRecords\<close> element holds, in order, exactly the records whose construction
  succeeded, so a failing record is left out and every other record is still there; and
  for every record whose construction raised (\<^verbatim>\<open>NoMetaKey\<close> or any other exception) one
  message went to the error sink.
\<close>

theorem listRecords_isolates_failures:
  "map fst (recordOutcomes makeRecord setNames resobs st) = resobs \<and>
   (\<exists>st'. getDCListRecordsElement ident makeRecord resobs setNames (u, st) =
     (Inr (Element ''oai'' ''ListRecords'' []
            (builtRecords (recordOutcomes makeRecord setNames resobs st))),
      u\<lparr>errors := errors u
           @ failureReports ident (recordOutcomes makeRecord setNames resobs st)\<rparr>,
      st'))"
proof -
  obtain st' where
    "foldl (listRecords_step ident makeRecord setNames) (Element ''oai'' ''ListRecords'' [] [], u, st)
       resobs =
     (Element ''oai'' ''ListRecords'' [] ([] @ builtRecords (recordOutcomes makeRecord setNames resobs st)),
      u\<lparr>errors := errors u
           @ failureReports ident (recordOutcomes makeRecord setNames resobs st)\<rparr>, st')"
    using listRecords_foldl [of ident makeRecord setNames "''oai''" "''ListRecords''" "[]" "[]" u st resobs]
    by blast
  then show ?thesis
    by (simp add: getDCListRecordsElement_def OAI_ListRecords_def recordOutcomes_all)
qed

subsection \<open>Nodes\<close>

lemma nameOf_setAttr [simp]: "nameOf (setAttr k v n) = nameOf n"
  by (cases n; cases v) simp_all

lemma childrenOf_setAttr [simp]: "childrenOf (setAttr k v n) = childrenOf n"
  by (cases n; cases v) simp_all

lemma nameOf_addChildren [simp]: "nameOf (addChildren n cs) = nameOf n"
  by (cases n) simp_all

lemma urls_setAttr [simp]:
  "accessURL_of (setAttr k v n) = accessURL_of n"
  "mirrorURLs_of (setAttr k v n) = mirrorURLs_of n"
  by (simp_all add: accessURL_of_def mirrorURLs_of_def childrenNamed_def)

lemma urls_addChildren:
  assumes "list_all (\<lambda>c. nameOf c \<noteq> ''accessURL'' \<and> nameOf c \<noteq> ''mirrorURL'') extra"
  shows "accessURL_of (addChildren n extra) = accessURL_of n"
    and "mirrorURLs_of (addChildren n extra) = mirrorURLs_of n"
proof -
  have "filter (\<lambda>c. nameOf c = ''accessURL'') extra = []"
       "filter (\<lambda>c. nameOf c = ''mirrorURL'') extra = []"
    using assms by (induction extra) auto
  then show "accessURL_of (addChildren n extra) = accessURL_of n"
    and "mirrorURLs_of (addChildren n extra) = mirrorURLs_of n"
    by (cases n; simp add: accessURL_of_def mirrorURLs_of_def childrenNamed_def)+
qed

lemma filter_mirror_map:
  "filter (\<lambda>c. nameOf c = ''mirrorURL'') (map mirrorURL vs) = map mirrorURL vs"
  by (induction vs) (simp_all add: mirrorURL_def elem_def)

lemma filter_access_map: "filter (\<lambda>c. nameOf c = ''accessURL'') (map mirrorURL vs) = []"
  by (induction vs) (simp_all add: mirrorURL_def elem_def)

lemma textOf_mirrorURL [simp]: "textOf (mirrorURL v) = Some v"
  by (simp add: mirrorURL_def elem_def)

lemma textOf_content: "textOf (Element p n as (content acc)) = acc"
  by (cases acc) simp_all

lemma sequence_all:
  "sequence xs = Inr vs \<Longrightarrow> (\<And>x v. x \<in> set xs \<Longrightarrow> x = Inr v \<Longrightarrow> P v) \<Longrightarrow> list_all P vs"
proof (induction xs arbitrary: vs)
  case Nil
  then show ?case by simp
next
  case (Cons x xs)
  then show ?case by (auto split: sum.splits)
qed

subsection \<open>The auxiliary rule\<close>

lemma registered_auxiliaryId:
  "map_of (registryOf cm_renderer capabilityMakers) r = Some m \<Longrightarrow> auxiliaryId m = Some a
     \<Longrightarrow> a \<noteq> []"
  by (auto simp: registryOf_def capabilityMakers_def mkCM_def CapabilityMaker_def
           split: if_splits)

lemma auxiliaryId_nonempty:
  "getCapabilityMaker r = Inr m \<Longrightarrow> auxiliaryId m = Some a \<Longrightarrow> a \<noteq> []"
  unfolding getCapabilityMaker_def buildClassResolver_def
  by (auto split: option.splits dest: registered_auxiliaryId)

lemma call_base_CapabilityMaker:
  "callCapabilityMaker E CapabilityMaker p =
     (case getInterfaceElement E p of
        Inl e \<Rightarrow> Inl e
      | Inr ifs \<Rightarrow> Inr (Element ''vr'' ''capability'' []
          (elem ''vr'' ''description'' (content (pubMeta p ''description'')) # ifs)))"
  by (simp add: callCapabilityMaker_def CapabilityMaker_makeCapability_def CapabilityMaker_def
        mkCM_def VOR_capability_def split: sum.splits)

text \<open>
  C1.  For a publication whose \<^verbatim>\<open>auxiliary\<close> flag is set and whose renderer has a
  registered capability maker: if that maker declares no \<^verbatim>\<open>auxiliaryId\<close>,
  \<^verbatim>\<open>getCapabilityElement\<close> returns no capability; if it declares one, the result is a
  single plain \<^verbatim>\<open>capability\<close> element whose only attribute is \<^verbatim>\<open>standardID\<close> with that
  identifier and whose children are the description and the interface element of the base
  capability maker, nothing protocol-specific (an exception raised while the interface is
  built is passed on).
\<close>

theorem auxiliary_capability:
  assumes "auxiliary p" and "getCapabilityMaker (render p) = Inr m"
  shows "(auxiliaryId m = None \<longrightarrow> getCapabilityElement E p = Inr None) \<and>
    (\<forall>a. auxiliaryId m = Some a \<longrightarrow>
       getCapabilityElement E p =
         (case getInterfaceElement E p of
            Inl e \<Rightarrow> Inl e
          | Inr ifs \<Rightarrow> Inr (Some (Element ''vr'' ''capability'' [(''standardID'', a)]
               (elem ''vr'' ''description'' (content (pubMeta p ''description'')) # ifs)))))"
  using assms auxiliaryId_nonempty [OF assms(2)]
  by (auto simp: getCapabilityElement_def getAuxiliaryCapability_def call_base_CapabilityMaker
           split: sum.splits)

lemma example_TAP_interface:
  "callInterfaceMaker exampleEnv TAPInterface (examplePub ''dali'' aux) = Inr exampleInterface"
  by (simp add: callInterfaceMaker_def InterfaceMaker_makeInterface_def TAPInterface_def mkIM_def
        examplePub_def exampleEnv_def rewriteAccessURL_def exampleUrlparse_def exampleSwitch_def
        elem_def mirrorURL_def TR_interface_def exampleInterface_def)

lemma example_form_maker:
  "getCapabilityMaker ''form'' = Inr (mkCM (Some ''form'') VOR_capability None MC_Base)"
  by (simp add: getCapabilityMaker_def buildClassResolver_def registryOf_def capabilityMakers_def
        mkCM_def CapabilityMaker_def)

lemma example_dali_maker:
  "getCapabilityMaker ''dali'' =
     Inr (mkCM (Some ''dali'') TR_capability (Some ''ivo://ivoa.net/std/TAP#aux'') MC_TAP)"
  by (simp add: getCapabilityMaker_def buildClassResolver_def registryOf_def capabilityMakers_def
        mkCM_def CapabilityMaker_def)

theorem auxiliary_capability_witness:
  "auxiliary (examplePub ''dali'' True) \<and> auxiliary (examplePub ''form'' True) \<and>
   getCapabilityElement exampleEnv (examplePub ''form'' True) = Inr None \<and>
   getCapabilityElement exampleEnv (examplePub ''dali'' True) =
     Inr (Some (Element ''vr'' ''capability'' [(''standardID'', ''ivo://ivoa.net/std/TAP#aux'')]
       [Element ''vr'' ''description'' [] [Text ''Sample access''], exampleInterface]))"
proof -
  have aux: "auxiliary (examplePub ''dali'' True)" "auxiliary (examplePub ''form'' True)"
    by (simp_all add: examplePub_def)
  have form: "getCapabilityMaker (render (examplePub ''form'' True))
      = Inr (mkCM (Some ''form'') VOR_capability None MC_Base)"
    by (simp add: examplePub_def example_form_maker)
  have dali: "getCapabilityMaker (render (examplePub ''dali'' True))
      = Inr (mkCM (Some ''dali'') TR_capability (Some ''ivo://ivoa.net/std/TAP#aux'') MC_TAP)"
    by (simp add: examplePub_def example_dali_maker)
  have ifs: "getInterfaceElement exampleEnv (examplePub ''dali'' True) = Inr [exampleInterface]"
    using example_TAP_interface [of True]
    by (simp add: getInterfaceElement_def) (simp add: examplePub_def)
  have "getCapabilityElement exampleEnv (examplePub ''form'' True) = Inr None"
    using auxiliary_capability [OF aux(2) form, of exampleEnv] by (simp add: mkCM_def)
  moreover have "getCapabilityElement exampleEnv (examplePub ''dali'' True) =
     Inr (Some (Element ''vr'' ''capability'' [(''standardID'', ''ivo://ivoa.net/std/TAP#aux'')]
       [Element ''vr'' ''description'' [] [Text ''Sample access''], exampleInterface]))"
    using auxiliary_capability [OF aux(1) dali, of exampleEnv] ifs
    by (simp add: mkCM_def elem_def) (simp add: examplePub_def)
  ultimately show ?thesis using aux by simp
qed

subsection \<open>Mirror URLs\<close>

lemma base_interface_urls:
  assumes ok: "InterfaceMaker_makeInterface E (Element p n as []) pub = Inr i"
      and sw: "\<And>v. switchProtocol E (Some v) \<noteq> Inr v"
  shows "accessURL_of i \<notin> set (mirrorURLs_of i)"
proof -
  obtain acc where acc: "rewriteAccessURL E (pubMeta pub ''accessURL'') = Inr acc"
    using ok by (auto simp: InterfaceMaker_makeInterface_def split: sum.splits)
  define ms where "ms = filter (\<lambda>v. Some v \<noteq> acc) (pubIterMeta pub ''mirrorURL'')"
  define i0 where "i0 = Element p n as
     ([addChildren (setAttr ''use'' (pubMeta pub ''urlUse'') (elem ''vr'' ''accessURL'' []))
         (content acc),
       setAttr ''standardId'' (pubMeta pub ''securityId'') (elem ''vr'' ''securityMethod'' [])]
      @ map mirrorURL ms)"
  have a0: "accessURL_of i0 = acc"
    by (cases "pubMeta pub ''urlUse''"; cases "pubMeta pub ''securityId''")
       (simp_all add: i0_def accessURL_of_def childrenNamed_def elem_def filter_access_map
          textOf_content)
  have m0: "mirrorURLs_of i0 = map Some ms"
    by (cases "pubMeta pub ''urlUse''"; cases "pubMeta pub ''securityId''")
       (simp_all add: i0_def mirrorURLs_of_def childrenNamed_def elem_def filter_mirror_map)
  have notin: "acc \<notin> set (map Some ms)"
    by (auto simp: ms_def)
  from ok acc
  have "i = i0 \<or> (\<exists>v. switchProtocol E acc = Inr v \<and> i = addChildren i0 [mirrorURL v])"
    by (auto simp: InterfaceMaker_makeInterface_def Let_def i0_def ms_def
             split: if_splits sum.splits exn.splits)
  then show ?thesis
  proof
    assume "i = i0"
    with a0 m0 notin show ?thesis by simp
  next
    assume "\<exists>v. switchProtocol E acc = Inr v \<and> i = addChildren i0 [mirrorURL v]"
    then obtain v where v: "switchProtocol E acc = Inr v" "i = addChildren i0 [mirrorURL v]"
      by blast
    have "acc \<noteq> Some v"
      using sw [of v] v(1) by auto
    moreover have "accessURL_of i = acc"
      using a0 by (simp add: v(2) i0_def accessURL_of_def childrenNamed_def mirrorURL_def elem_def)
    moreover have "mirrorURLs_of i = map Some ms @ [Some v]"
      using m0 by (simp add: v(2) i0_def mirrorURLs_of_def childrenNamed_def mirrorURL_def elem_def)
    ultimately show ?thesis
      using notin by auto
  qed
qed

lemma inputParam_name: "getInputParamFromColumn E c = Inr v \<Longrightarrow> nameOf v = ''param''"
  by (auto simp: getInputParamFromColumn_def getParamFromColumn_def VS_param_def
           split: sum.splits)

lemma inputParams_names:
  assumes "getInputParams E pub = Inr ps"
  shows "list_all (\<lambda>c. nameOf c \<noteq> ''accessURL'' \<and> nameOf c \<noteq> ''mirrorURL'') ps"
proof -
  have "list_all (\<lambda>c. nameOf c = ''param'') ps"
    using assms
    by (auto simp: getInputParams_def split: sum.splits option.splits
             intro!: sequence_all [where P = "\<lambda>c. nameOf c = ''param''"]
             dest: inputParam_name [OF sym])
  then show ?thesis
    by (induction ps) auto
qed

lemma interfaceClass_childless:
  "m \<in> set interfaceMakers \<Longrightarrow> \<exists>p n as. interfaceClass m = Element p n as []"
  by (auto simp: interfaceMakers_def mkIM_def DALIInterface_def InterfaceWithParams_def
       TAPInterface_def VOR_interface_def StandardParamHTTP_def DaFut_daliInterface_def
       VS_ParamHTTP_def SIA_interface_def SCS_interface_def SSAP_interface_def SLAP_interface_def
       VOR_WebBrowser_def TR_interface_def VOR_WebService_def VOG_OAIHTTP_def)

text \<open>
  C3.  Whatever interface maker of the module builds an interface element, and whether or
  not the access URL was rewritten to its short alias or a protocol-switched mirror was
  added: no \<^verbatim>\<open>mirrorURL\<close> child of the element has the value of its \<^verbatim>\<open>accessURL\<close>
  child.  The mirror URLs from the metadata are filtered against the access URL; the
  added one is what \<^verbatim>\<open>osinter.switchProtocol\<close> returns, of which the theorem takes for
  granted that it never returns the URL it was given.
\<close>

theorem mirrorURL_never_accessURL:
  assumes m: "m \<in> set interfaceMakers"
      and sw: "\<forall>v. switchProtocol E (Some v) \<noteq> Inr v"
      and ok: "callInterfaceMaker E m pub = Inr i"
  shows "accessURL_of i \<notin> set (mirrorURLs_of i)"
proof -
  obtain p n as where cls: "interfaceClass m = Element p n as []"
    using interfaceClass_childless [OF m] by blast
  obtain res where res: "InterfaceMaker_makeInterface E (Element p n as []) pub = Inr res"
    using ok cls by (auto simp: callInterfaceMaker_def split: sum.splits)
  have b: "accessURL_of res \<notin> set (mirrorURLs_of res)"
    using base_interface_urls [OF res] sw by blast
  have ex: "list_all (\<lambda>c. nameOf c \<noteq> ''accessURL'' \<and> nameOf c \<noteq> ''mirrorURL'') daliEndpoints"
    by (simp add: daliEndpoints_def elem_def)
  show ?thesis
  proof (cases "im_impl m")
    case MI_WithParams
    then obtain ps where ps: "getInputParams E pub = Inr ps"
      and i: "i = addChildren res
                ([elem ''vs'' ''queryType'' (content (pubMeta pub ''requestMethod'')),
                  elem ''vs'' ''resultType'' (content (pubMeta pub ''resultType''))] @ ps)"
      using ok cls res by (auto simp: callInterfaceMaker_def split: sum.splits)
    have "list_all (\<lambda>c. nameOf c \<noteq> ''accessURL'' \<and> nameOf c \<noteq> ''mirrorURL'')
       ([elem ''vs'' ''queryType'' (content (pubMeta pub ''requestMethod'')),
         elem ''vs'' ''resultType'' (content (pubMeta pub ''resultType''))] @ ps)"
      using inputParams_names [OF ps] by (simp add: elem_def)
    from urls_addChildren [OF this, of res] b i show ?thesis
      by simp
  next
    case MI_DALI
    then have "i = addChildren (setAttr ''version'' (Some ''1.1'') res) daliEndpoints"
      using ok cls res by (auto simp: callInterfaceMaker_def split: sum.splits if_splits)
    with urls_addChildren [OF ex, of "setAttr ''version'' (Some ''1.1'') res"] b show ?thesis
      by simp
  next
    case MI_SOAP
    then obtain a where "i = addChildren res [elem ''vr'' ''wsdlURL'' [Text (a @ ''?wsdl'')]]"
      using ok cls res by (auto simp: callInterfaceMaker_def split: sum.splits option.splits)
    moreover have "list_all (\<lambda>c. nameOf c \<noteq> ''accessURL'' \<and> nameOf c \<noteq> ''mirrorURL'')
        [elem ''vr'' ''wsdlURL'' [Text (a @ ''?wsdl'')]]"
      by (simp add: elem_def)
    ultimately show ?thesis
      using urls_addChildren [of "[elem ''vr'' ''wsdlURL'' [Text (a @ ''?wsdl'')]]" res] b
      by simp
  qed (use ok cls res b in \<open>auto simp: callInterfaceMaker_def\<close>)
qed

lemma exampleSwitch_differs: "exampleSwitch (Some v) \<noteq> Inr v"
proof
  assume a: "exampleSwitch (Some v) = Inr v"
  show False
  proof (cases "take 7 v = ''http://''")
    case True
    then have "v = ''https://'' @ drop 7 v"
      using a by (simp add: exampleSwitch_def)
    then have "take 7 v = take 7 (''https://'' @ drop 7 v)"
      by simp
    then show False
      using True by simp
  next
    case False
    then have c: "take 8 v = ''https://''" "v = ''http://'' @ drop 8 v"
      using a by (auto simp: exampleSwitch_def split: if_splits)
    then have "take 7 v = take 7 (''http://'' @ drop 8 v)"
      by simp
    then show False
      using False by simp
  qed
qed

theorem mirrorURL_never_accessURL_witness:
  "TAPInterface \<in> set interfaceMakers \<and>
   callInterfaceMaker exampleEnv TAPInterface (examplePub ''dali'' False) = Inr exampleInterface \<and>
   pubIterMeta (examplePub ''dali'' False) ''mirrorURL''
     = [''http://dc.example.org/tap'', ''http://mirror.example.org/tap''] \<and>
   accessURL_of exampleInterface = Some ''http://dc.example.org/tap'' \<and>
   accessURL_of exampleInterface \<notin> set (mirrorURLs_of exampleInterface)"
proof -
  have m: "TAPInterface \<in> set interfaceMakers"
    by (simp add: interfaceMakers_def)
  have sw: "\<forall>v. switchProtocol exampleEnv (Some v) \<noteq> Inr v"
    by (simp add: exampleEnv_def exampleSwitch_differs)
  have a: "accessURL_of exampleInterface = Some ''http://dc.example.org/tap''"
    by (simp add: accessURL_of_def childrenNamed_def exampleInterface_def)
  have p: "pubIterMeta (examplePub ''dali'' False) ''mirrorURL''
     = [''http://dc.example.org/tap'', ''http://mirror.example.org/tap'']"
    by (simp add: examplePub_def)
  show ?thesis
    using mirrorURL_never_accessURL [OF m sw example_TAP_interface [of False]]
      m a p example_TAP_interface [of False]
    by simp
qed

subsection \<open>Resolution of renderers\<close>

text \<open>
  C4.  For a publication that is not auxiliary: the interface resolver yields a maker for
  every renderer, and it is the default \<^verbatim>\<open>InterfaceWithParams\<close> when no interface maker
  declares the renderer; when no capability maker declares the renderer,
  \<^verbatim>\<open>getCapabilityElement\<close> raises a \<^verbatim>\<open>ReportableError\<close> and produces no capability.
\<close>

theorem resolver_defaults:
  "(\<exists>m. getInterfaceMaker (render p) = Inr m) \<and>
   (\<not> registered (registryOf im_renderer interfaceMakers) (render p) \<longrightarrow>
      getInterfaceMaker (render p) = Inr InterfaceWithParams) \<and>
   (\<not> auxiliary p \<and> \<not> registered (registryOf cm_renderer capabilityMakers) (render p) \<longrightarrow>
      getCapabilityElement E p = Inl (ReportableError
        (''Do not know how to produce a capability for the '' @ [CHR 0x27] @ render p
           @ [CHR 0x27] @ '' renderer'')))"
proof -
  have a: "\<exists>m. getInterfaceMaker (render p) = Inr m"
    by (simp add: getInterfaceMaker_def buildClassResolver_def split: option.splits)
  have b: "\<not> registered (registryOf im_renderer interfaceMakers) (render p) \<Longrightarrow>
      getInterfaceMaker (render p) = Inr InterfaceWithParams"
    by (simp add: getInterfaceMaker_def buildClassResolver_def registered_def
          map_of_eq_None_iff [symmetric] del: map_of_eq_None_iff)
  have c: "\<not> registered (registryOf cm_renderer capabilityMakers) (render p) \<Longrightarrow>
      getCapabilityMaker (render p) = Inl (KeyError (render p))"
    by (simp add: getCapabilityMaker_def buildClassResolver_def registered_def
          map_of_eq_None_iff [symmetric] del: map_of_eq_None_iff)
  show ?thesis
    using a b c by (auto simp: getCapabilityElement_def)
qed

theorem resolver_defaults_witness:
  "\<not> auxiliary (examplePub ''upload'' False) \<and>
   \<not> registered (registryOf im_renderer interfaceMakers) ''upload'' \<and>
   \<not> registered (registryOf cm_renderer capabilityMakers) ''upload'' \<and>
   getInterfaceMaker ''upload'' = Inr InterfaceWithParams \<and>
   getCapabilityElement exampleEnv (examplePub ''upload'' False) = Inl (ReportableError
     ''Do not know how to produce a capability for the 'upload' renderer'')"
proof -
  have r: "render (examplePub ''upload'' False) = ''upload''"
          "\<not> auxiliary (examplePub ''upload'' False)"
    by (simp_all add: examplePub_def)
  have i: "\<not> registered (registryOf im_renderer interfaceMakers) ''upload''"
    by (simp add: registered_def registryOf_def interfaceMakers_def mkIM_def DALIInterface_def
          InterfaceWithParams_def TAPInterface_def)
  have c: "\<not> registered (registryOf cm_renderer capabilityMakers) ''upload''"
    by (simp add: registered_def registryOf_def capabilityMakers_def mkCM_def CapabilityMaker_def)
  show ?thesis
    using resolver_defaults [of "examplePub ''upload'' False" exampleEnv] r i c
    by simp
qed

subsection \<open>Empty table sets\<close>

lemma empty_list_default_schema:
  "getTablesetForService E ob (HasGetTableSet (PyList [])) VS_tableset sb =
     Inr (Element ''vs'' ''tableset'' []
            [Element ''vs'' ''schema'' [] [Element ''vs'' ''name'' [] [Text ''default'']]])"
  "getTablesetForService E ob (IsDataDescriptor []) VS_tableset sb =
     Inr (Element ''vs'' ''tableset'' []
            [Element ''vs'' ''schema'' [] [Element ''vs'' ''name'' [] [Text ''default'']]])"
  by (simp_all add: getTablesetForService_def VS_tableset_def elem_def)

text \<open>
  C10.  The table set of a \<^verbatim>\<open>ResRec\<close> is a generator object, which \<^verbatim>\<open>not tables\<close> does
  not recognise as empty: for a \<^verbatim>\<open>ResRec\<close> without \<^verbatim>\<open>tableset\<close> metadata the assembler
  returns a \<^verbatim>\<open>tableset\<close> element with no schema at all, where an empty list gives the
  schema called \<^verbatim>\<open>default\<close>.
\<close>

theorem ResRec_empty_tableset:
  "getTablesetForService E ob (HasGetTableSet (ResRec_getTableSet [])) VS_tableset sb =
     Inr (Element ''vs'' ''tableset'' [] [])"
  by (simp add: getTablesetForService_def ResRec_getTableSet_def VS_tableset_def
        getTablesetForSchemaCollection_def groupBySchema_def)

subsection \<open>Attributes\<close>

lemma map_of_filter_neq: "map_of (filter (\<lambda>kv. fst kv \<noteq> k) as) k' = (if k' = k then None else map_of as k')"
  by (induction as) auto

lemma map_of_replace:
  "map_of (map (\<lambda>kv. if fst kv = k then (k, v) else kv) as) k' =
     (if k' = k \<and> k \<in> fst ` set as then Some v else map_of as k')"
proof (induction as)
  case Nil
  then show ?case by simp
next
  case (Cons a as)
  then show ?case by (cases a) force
qed

lemma getAttr_setAttr:
  "getAttr (setAttr k v (Element p n as cs)) k' = (if k' = k then v else map_of as k')"
proof (cases v)
  case None
  then show ?thesis by (simp add: map_of_filter_neq)
next
  case (Some x)
  then show ?thesis
    by (auto simp: map_of_replace map_add_def map_of_eq_None_iff [symmetric]
             simp del: map_of_eq_None_iff split: option.splits)
qed

lemma setAttr_Element: "\<exists>as'. setAttr k v (Element p n as cs) = Element p n as' cs"
  by (cases v) simp_all

lemma setAttr_cases:
  "\<exists>as'. setAttr k v (Element p n as cs) = Element p n as' cs
     \<and> (\<forall>k'. map_of as' k' = (if k' = k then v else map_of as k'))"
proof -
  obtain as' where a: "setAttr k v (Element p n as cs) = Element p n as' cs"
    using setAttr_Element by blast
  have "map_of as' k' = (if k' = k then v else map_of as k')" for k'
    using getAttr_setAttr [of k v p n as cs k'] a by simp
  with a show ?thesis by blast
qed

lemma sequence_length: "sequence xs = Inr vs \<Longrightarrow> length vs = length xs"
  by (induction xs arbitrary: vs) (auto split: sum.splits)

subsection \<open>Catalogue services\<close>

lemma catalog_maker:
  "getResourceMaker ''catalogService'' = Inr (mkRM (Some ''catalogService'') VS_CatalogService MR_CatalogService)"
  by (simp add: getResourceMaker_def buildClassResolver_def registryOf_def resourceMakers_def mkRM_def)

lemma base_shape:
  assumes "ResourceMaker_makeResource E VS_CatalogService r s c = (Inr base, c')"
  shows "\<exists>vl vr as. res_built r ''_vrResourceBuilder'' = Inr vr \<and> nameOf vl = ''validationLevel''
     \<and> base = Element ''ri'' ''Resource'' as (vl # vr)
     \<and> map_of as ''created'' = res_meta r ''creationDate''
     \<and> map_of as ''updated'' = res_meta r ''_metadataUpdated''
     \<and> map_of as ''status'' = res_meta r ''status''
     \<and> map_of as ''xsi_type'' = Some ''vs:CatalogService''"
proof -
  obtain a0 where a0: "VS_CatalogService = Element ''vr'' ''Resource'' a0 []"
    "\<And>k. map_of a0 k = (if k = ''xsi_type'' then Some ''vs:CatalogService'' else None)"
    by (simp add: VS_CatalogService_def resourceOfType_def)
  obtain a1 where a1: "setAttr ''created'' (res_meta r ''creationDate'') (Element ''vr'' ''Resource'' a0 [])
       = Element ''vr'' ''Resource'' a1 []"
    "\<And>k. map_of a1 k = (if k = ''created'' then res_meta r ''creationDate'' else map_of a0 k)"
    using setAttr_cases by blast
  obtain a2 where a2: "setAttr ''updated'' (res_meta r ''_metadataUpdated'') (Element ''vr'' ''Resource'' a1 [])
       = Element ''vr'' ''Resource'' a2 []"
    "\<And>k. map_of a2 k = (if k = ''updated'' then res_meta r ''_metadataUpdated'' else map_of a1 k)"
    using setAttr_cases by blast
  obtain a3 where a3: "setAttr ''status'' (res_meta r ''status'') (Element ''vr'' ''Resource'' a2 [])
       = Element ''vr'' ''Resource'' a3 []"
    "\<And>k. map_of a3 k = (if k = ''status'' then res_meta r ''status'' else map_of a2 k)"
    using setAttr_cases by blast
  define vl where "vl = addChildren
                       (setAttr ''validatedBy''
                          (Some (case res_meta r ''validatedBy'' of
                                   None \<Rightarrow> ''None'' | Some v \<Rightarrow> v))
                          (elem ''vr'' ''validationLevel'' []))
                       (content (res_meta r ''validationLevel''))"
  have vln: "nameOf vl = ''validationLevel''" by (simp add: vl_def elem_def)
  obtain vr where vr: "res_built r ''_vrResourceBuilder'' = Inr vr"
     and b: "base = setPrefix ''ri'' (addChildren (Element ''vr'' ''Resource'' a3 []) (vl # vr))"
    using assms unfolding ResourceMaker_makeResource_def a0(1) a1(1) a2(1) a3(1) vl_def
    by (auto split: prod.splits option.splits sum.splits)
  have "base = Element ''ri'' ''Resource'' a3 (vl # vr)" using b by simp
  then show ?thesis using vr vln a0(2) a1(2) a2(2) a3(2) by auto
qed

text \<open>
  C6.  The document built for a resource of type \<^verbatim>\<open>catalogService\<close> is the one the
  service maker builds for it (the attributes \<^verbatim>\<open>created\<close>, \<^verbatim>\<open>updated\<close>, \<^verbatim>\<open>status\<close> and
  the type, the validation level, the output of the resource builder, the rights, and
  the capabilities of the publications for the requested sets, one outcome of
  \<^verbatim>\<open>getCapabilityElement\<close> per publication), followed by the organisation and coverage
  metadata and, last, the table set: the children of the service document are an initial
  segment of the children of the catalogue document, and the attributes are the same.
\<close>

theorem catalogService_extends_service:
  assumes rt: "getResType r = ''catalogService''"
      and ok: "getVORMetadataElement E ob r s c = (Inr docs, c')"
  shows "\<exists>doc svc base vl vr rights caps org cov ts.
      docs = [doc] \<and>
      ServiceResourceMaker_makeResource E VS_CatalogService r s c = (Inr svc, c') \<and>
      ResourceMaker_makeResource E VS_CatalogService r s c = (Inr base, c') \<and>
      res_built r ''_vrResourceBuilder'' = Inr vr \<and>
      res_built r ''_rightsBuilder'' = Inr rights \<and>
      capabilitiesFor E r s = Inr caps \<and> length caps = length (getPublicationsForSet r s) \<and>
      res_built r ''_orgMetaBuilder'' = Inr org \<and>
      res_built r ''_coverageMetaBuilder'' = Inr cov \<and>
      tablesetFor E ob r = Inr ts \<and>
      nameOf vl = ''validationLevel'' \<and>
      childrenOf base = vl # vr \<and>
      childrenOf svc = childrenOf base @ rights @ presentCapabilities caps \<and>
      childrenOf doc = childrenOf svc @ org @ cov @ [ts] \<and>
      getAttr doc = getAttr svc \<and>
      getAttr doc ''created'' = res_meta r ''creationDate'' \<and>
      getAttr doc ''updated'' = res_meta r ''_metadataUpdated'' \<and>
      getAttr doc ''status'' = res_meta r ''status'' \<and>
      getAttr doc ''xsi_type'' = Some ''vs:CatalogService''"
proof -
  from ok rt obtain doc where doc: "docs = [doc]"
      "CatalogServiceResourceMaker_makeResource E ob VS_CatalogService r s c = (Inr doc, c')"
    by (auto simp: getVORMetadataElement_def catalog_maker callResourceMaker_def mkRM_def single_def
             split: prod.splits sum.splits)
  from doc(2) obtain ds ts where ds:
      "DataServiceResourceMaker_makeResource E VS_CatalogService r s c = (Inr ds, c')"
      "tablesetFor E ob r = Inr ts" "doc = addChildren ds [ts]"
    by (auto simp: CatalogServiceResourceMaker_makeResource_def split: prod.splits sum.splits)
  from ds(1) obtain svc org cov where svc:
      "ServiceResourceMaker_makeResource E VS_CatalogService r s c = (Inr svc, c')"
      "res_built r ''_orgMetaBuilder'' = Inr org" "res_built r ''_coverageMetaBuilder'' = Inr cov"
      "ds = addChildren svc (org @ cov)"
    by (auto simp: DataServiceResourceMaker_makeResource_def split: prod.splits sum.splits)
  from svc(1) obtain base rights caps where base:
      "ResourceMaker_makeResource E VS_CatalogService r s c = (Inr base, c')"
      "res_built r ''_rightsBuilder'' = Inr rights" "capabilitiesFor E r s = Inr caps"
      "svc = addChildren (addChildren base rights) (presentCapabilities caps)"
    by (auto simp: ServiceResourceMaker_makeResource_def split: prod.splits sum.splits)
  from base_shape [OF base(1)] obtain vl vr as where sh:
      "res_built r ''_vrResourceBuilder'' = Inr vr" "nameOf vl = ''validationLevel''"
      "base = Element ''ri'' ''Resource'' as (vl # vr)"
      "map_of as ''created'' = res_meta r ''creationDate''"
      "map_of as ''updated'' = res_meta r ''_metadataUpdated''"
      "map_of as ''status'' = res_meta r ''status''"
      "map_of as ''xsi_type'' = Some ''vs:CatalogService''"
    by blast
  have len: "length caps = length (getPublicationsForSet r s)"
    using base(3) sequence_length by (fastforce simp: capabilitiesFor_def)
  have svcE: "svc = Element ''ri'' ''Resource'' as (vl # vr @ rights @ presentCapabilities caps)"
    by (simp add: base(4) sh(3))
  have docE: "doc = Element ''ri'' ''Resource'' as
      (vl # vr @ rights @ presentCapabilities caps @ org @ cov @ [ts])"
    by (simp add: ds(3) svc(4) svcE)
  have attrs: "getAttr doc = getAttr svc"
    by (rule ext) (simp add: docE svcE)
  show ?thesis
    apply (rule exI [of _ doc], rule exI [of _ svc], rule exI [of _ base], rule exI [of _ vl],
       rule exI [of _ vr], rule exI [of _ rights], rule exI [of _ caps], rule exI [of _ org],
       rule exI [of _ cov], rule exI [of _ ts])
    using doc(1) svc(1,2,3) base(1,2,3) sh(1,2,4,5,6,7) ds(2) len attrs
    by (simp add: docE svcE sh(3))
qed

theorem catalogService_extends_service_witness:
  "getResType exampleCatalogService = ''catalogService'' \<and>
   fst (getVORMetadataElement exampleEnv exampleObscore exampleCatalogService {''ivo_managed''}
          Map.empty) = Inr [exampleDocument] \<and>
   (\<exists>svc caps ts.
      fst (ServiceResourceMaker_makeResource exampleEnv VS_CatalogService exampleCatalogService
             {''ivo_managed''} Map.empty) = Inr svc \<and>
      capabilitiesFor exampleEnv exampleCatalogService {''ivo_managed''} = Inr caps \<and>
      length caps = 1 \<and>
      tablesetFor exampleEnv exampleObscore exampleCatalogService = Inr ts \<and>
      childrenOf exampleDocument = childrenOf svc @ [ts])"
proof -
  have rt: "getResType exampleCatalogService = ''catalogService''"
    by code_simp
  have e: "fst (getVORMetadataElement exampleEnv exampleObscore exampleCatalogService
                  {''ivo_managed''} Map.empty) = Inr [exampleDocument]"
    by code_simp
  then have ok: "getVORMetadataElement exampleEnv exampleObscore exampleCatalogService
       {''ivo_managed''} Map.empty
     = (Inr [exampleDocument],
        snd (getVORMetadataElement exampleEnv exampleObscore exampleCatalogService
               {''ivo_managed''} Map.empty))"
    by (simp add: prod_eq_iff)
  have none: "res_built exampleCatalogService ''_orgMetaBuilder'' = Inr []"
    "res_built exampleCatalogService ''_coverageMetaBuilder'' = Inr []"
    by (simp_all add: exampleCatalogService_def exampleResource_def)
  have one: "length (getPublicationsForSet exampleCatalogService {''ivo_managed''}) = 1"
    by code_simp
  from catalogService_extends_service [OF rt ok]
  obtain doc svc base vl vr rights caps org cov ts where
      "[exampleDocument] = [doc]"
      "ServiceResourceMaker_makeResource exampleEnv VS_CatalogService exampleCatalogService
         {''ivo_managed''} Map.empty
       = (Inr svc, snd (getVORMetadataElement exampleEnv exampleObscore exampleCatalogService
                          {''ivo_managed''} Map.empty))"
      "capabilitiesFor exampleEnv exampleCatalogService {''ivo_managed''} = Inr caps"
      "length caps = length (getPublicationsForSet exampleCatalogService {''ivo_managed''})"
      "res_built exampleCatalogService ''_orgMetaBuilder'' = Inr org"
      "res_built exampleCatalogService ''_coverageMetaBuilder'' = Inr cov"
      "tablesetFor exampleEnv exampleObscore exampleCatalogService = Inr ts"
      "childrenOf doc = childrenOf svc @ org @ cov @ [ts]"
    by blast
  then have "fst (ServiceResourceMaker_makeResource exampleEnv VS_CatalogService
                    exampleCatalogService {''ivo_managed''} Map.empty) = Inr svc
      \<and> capabilitiesFor exampleEnv exampleCatalogService {''ivo_managed''} = Inr caps
      \<and> length caps = 1
      \<and> tablesetFor exampleEnv exampleObscore exampleCatalogService = Inr ts
      \<and> childrenOf exampleDocument = childrenOf svc @ [ts]"
    using none one by simp
  then show ?thesis
    using rt e by blast
qed

subsection \<open>Building twice\<close>

lemma loadDependencies_idem:
  "loadDependencies E r (snd (loadDependencies E r c)) = loadDependencies E r c"
  by (auto simp: loadDependencies_def Let_def split: option.splits sum.splits)

lemma settled_base: "settled (ResourceMaker_makeResource E cls r s)"
proof -
  have "snd (ResourceMaker_makeResource E cls r s c) = snd (loadDependencies E r c)" for c
    by (cases "loadDependencies E r c") (auto simp: ResourceMaker_makeResource_def split: option.splits sum.splits)
  moreover have "ResourceMaker_makeResource E cls r s c = ResourceMaker_makeResource E cls r s c'"
    if "loadDependencies E r c = loadDependencies E r c'" for c c'
    using that by (simp add: ResourceMaker_makeResource_def)
  ultimately show ?thesis
    unfolding settled_def using loadDependencies_idem by metis
qed


lemma settled_step:
  assumes "settled G"
      and "\<And>c. snd (F c) = snd (G c)"
      and "\<And>c c'. G c = G c' \<Longrightarrow> F c = F c'"
  shows "settled F"
  unfolding settled_def
proof
  fix c
  have "G (snd (G c)) = G c" using assms(1) by (simp add: settled_def)
  then have "F (snd (G c)) = F c" by (rule assms(3))
  then show "F (snd (F c)) = F c" by (simp add: assms(2))
qed

lemma settled_service: "settled (ServiceResourceMaker_makeResource E cls r s)"
proof (rule settled_step [OF settled_base [of E cls r s]])
  fix c
  show "snd (ServiceResourceMaker_makeResource E cls r s c) = snd (ResourceMaker_makeResource E cls r s c)"
    by (cases "ResourceMaker_makeResource E cls r s c")
       (auto simp: ServiceResourceMaker_makeResource_def split: sum.splits)
next
  fix c c'
  assume "ResourceMaker_makeResource E cls r s c = ResourceMaker_makeResource E cls r s c'"
  then show "ServiceResourceMaker_makeResource E cls r s c = ServiceResourceMaker_makeResource E cls r s c'"
    by (simp add: ServiceResourceMaker_makeResource_def)
qed

lemma settled_dataService: "settled (DataServiceResourceMaker_makeResource E cls r s)"
proof (rule settled_step [OF settled_service [of E cls r s]])
  fix c
  show "snd (DataServiceResourceMaker_makeResource E cls r s c) = snd (ServiceResourceMaker_makeResource E cls r s c)"
    by (cases "ServiceResourceMaker_makeResource E cls r s c")
       (auto simp: DataServiceResourceMaker_makeResource_def split: sum.splits)
next
  fix c c'
  assume "ServiceResourceMaker_makeResource E cls r s c = ServiceResourceMaker_makeResource E cls r s c'"
  then show "DataServiceResourceMaker_makeResource E cls r s c = DataServiceResourceMaker_makeResource E cls r s c'"
    by (simp add: DataServiceResourceMaker_makeResource_def)
qed

lemma settled_catalogService: "settled (CatalogServiceResourceMaker_makeResource E ob cls r s)"
proof (rule settled_step [OF settled_dataService [of E cls r s]])
  fix c
  show "snd (CatalogServiceResourceMaker_makeResource E ob cls r s c) = snd (DataServiceResourceMaker_makeResource E cls r s c)"
    by (cases "DataServiceResourceMaker_makeResource E cls r s c")
       (auto simp: CatalogServiceResourceMaker_makeResource_def split: sum.splits)
next
  fix c c'
  assume "DataServiceResourceMaker_makeResource E cls r s c = DataServiceResourceMaker_makeResource E cls r s c'"
  then show "CatalogServiceResourceMaker_makeResource E ob cls r s c = CatalogServiceResourceMaker_makeResource E ob cls r s c'"
    by (simp add: CatalogServiceResourceMaker_makeResource_def)
qed

lemma settled_registry: "settled (RegistryResourceMaker_makeResource E ob cls r s)"
proof (rule settled_step [OF settled_service [of E cls r s]])
  fix c
  show "snd (RegistryResourceMaker_makeResource E ob cls r s c) = snd (ServiceResourceMaker_makeResource E cls r s c)"
    by (cases "ServiceResourceMaker_makeResource E cls r s c")
       (auto simp: RegistryResourceMaker_makeResource_def split: sum.splits)
next
  fix c c'
  assume "ServiceResourceMaker_makeResource E cls r s c = ServiceResourceMaker_makeResource E cls r s c'"
  then show "RegistryResourceMaker_makeResource E ob cls r s c = RegistryResourceMaker_makeResource E ob cls r s c'"
    by (simp add: RegistryResourceMaker_makeResource_def)
qed

lemma settled_builder: "settled (BuilderResourceMaker_makeResource E b cls r s)"
proof (rule settled_step [OF settled_base [of E cls r s]])
  fix c
  show "snd (BuilderResourceMaker_makeResource E b cls r s c) = snd (ResourceMaker_makeResource E cls r s c)"
    by (cases "ResourceMaker_makeResource E cls r s c")
       (auto simp: BuilderResourceMaker_makeResource_def split: sum.splits)
next
  fix c c'
  assume "ResourceMaker_makeResource E cls r s c = ResourceMaker_makeResource E cls r s c'"
  then show "BuilderResourceMaker_makeResource E b cls r s c = BuilderResourceMaker_makeResource E b cls r s c'"
    by (simp add: BuilderResourceMaker_makeResource_def)
qed

lemma settled_auth: "settled (AuthResourceMaker_makeResource E cls r s)"
proof (rule settled_step [OF settled_base [of E cls r s]])
  fix c
  show "snd (AuthResourceMaker_makeResource E cls r s c) = snd (ResourceMaker_makeResource E cls r s c)"
    by (cases "ResourceMaker_makeResource E cls r s c")
       (auto simp: AuthResourceMaker_makeResource_def split: sum.splits)
next
  fix c c'
  assume "ResourceMaker_makeResource E cls r s c = ResourceMaker_makeResource E cls r s c'"
  then show "AuthResourceMaker_makeResource E cls r s c = AuthResourceMaker_makeResource E cls r s c'"
    by (simp add: AuthResourceMaker_makeResource_def)
qed

lemma settled_schemas: "settled (makeResourceForSchemas E ob cls r schemas s)"
proof (rule settled_step [OF settled_base [of E cls r s]])
  fix c
  show "snd (makeResourceForSchemas E ob cls r schemas s c) = snd (ResourceMaker_makeResource E cls r s c)"
    by (cases "ResourceMaker_makeResource E cls r s c")
       (auto simp: makeResourceForSchemas_def split: sum.splits)
next
  fix c c'
  assume "ResourceMaker_makeResource E cls r s c = ResourceMaker_makeResource E cls r s c'"
  then show "makeResourceForSchemas E ob cls r schemas s c = makeResourceForSchemas E ob cls r schemas s c'"
    by (simp add: makeResourceForSchemas_def)
qed

lemma settled_single: "settled F \<Longrightarrow> settled (\<lambda>c. single (F c))"
proof (rule settled_step [where G = F])
  fix c
  show "snd (single (F c)) = snd (F c)"
    by (cases "F c") (auto simp: single_def split: sum.splits)
qed simp_all

lemma settled_const: "settled (\<lambda>c. (x, c))"
  by (simp add: settled_def)

lemma settled_call: "settled (callResourceMaker E ob m r s)"
proof -
  have eq: "callResourceMaker E ob m r s = (\<lambda>c. callResourceMaker E ob m r s c)" by simp
  show ?thesis
  proof (cases "rm_impl m")
    case MR_Table
    then show ?thesis
      by (cases "res_kind r")
         (simp_all add: callResourceMaker_def [abs_def] settled_single settled_schemas settled_const)
  qed (simp_all add: callResourceMaker_def [abs_def] settled_single settled_base settled_service
         settled_dataService settled_catalogService settled_registry settled_builder settled_auth
         settled_schemas settled_const)
qed

lemma settled_metadata: "settled (getVORMetadataElement E ob r s)"
  by (cases "getResourceMaker (getResType r)")
     (simp_all add: getVORMetadataElement_def [abs_def] settled_const settled_call)

lemma settled_resourceElement: "settled (mm r s) \<Longrightarrow> settled (getResourceElement r s mm)"
proof (cases "res_built r ''_oaiHeaderBuilder''")
  case (Inl e)
  then show ?thesis by (simp add: getResourceElement_def [abs_def] settled_const)
next
  case (Inr h)
  assume st: "settled (mm r s)"
  show ?thesis
  proof (rule settled_step [OF st])
    fix c
    show "snd (getResourceElement r s mm c) = snd (mm r s c)"
      using Inr by (cases "mm r s c") (auto simp: getResourceElement_def split: sum.splits)
  next
    fix c c'
    assume "mm r s c = mm r s c'"
    then show "getResourceElement r s mm c = getResourceElement r s mm c'"
      using Inr by (simp add: getResourceElement_def)
  qed
qed

text \<open>
  C7.  Building the record of a resource object for a set of set names twice in
  succession, the second time in the state the first build left (its dependency cache
  filled), with the metadata and the configuration unchanged, gives the same outcome both
  times: the same tree, element for element and attribute for attribute, or the same
  exception; and the second build changes nothing in the cache.  This holds for the
  metadata element and for the whole record.
\<close>

theorem build_twice:
  "getVOResourceElement E ob r s (snd (getVOResourceElement E ob r s c))
     = getVOResourceElement E ob r s c \<and>
   getVORMetadataElement E ob r s (snd (getVORMetadataElement E ob r s c))
     = getVORMetadataElement E ob r s c"
  using settled_resourceElement [of "getVORMetadataElement E ob" r s, OF settled_metadata]
    settled_metadata [of E ob r s]
  by (simp add: settled_def getVOResourceElement_def)

theorem build_twice_witness:
  "snd (getVOResourceElement exampleEnv exampleObscore exampleCatalogService {''ivo_managed''}
          Map.empty) ''ex/q'' = Some [] \<and>
   getVOResourceElement exampleEnv exampleObscore exampleCatalogService {''ivo_managed''}
     (snd (getVOResourceElement exampleEnv exampleObscore exampleCatalogService
             {''ivo_managed''} Map.empty))
   = getVOResourceElement exampleEnv exampleObscore exampleCatalogService {''ivo_managed''}
       Map.empty"
proof -
  have "snd (getVOResourceElement exampleEnv exampleObscore exampleCatalogService
               {''ivo_managed''} Map.empty) ''ex/q'' = Some []"
    by code_simp
  then show ?thesis
    using build_twice [of exampleEnv exampleObscore exampleCatalogService "{''ivo_managed''}"
        Map.empty]
    by simp
qed

subsection \<open>The coverage profile\<close>



subsection \<open>Records for the service list\<close>








subsection \<open>A list of five records\<close>

theorem listRecords_isolates_failures_witness:
  "fst (getDCListRecordsElement exampleIdent exampleMakeRecord [1, 2, 3, 4, 5] {''ivo_managed''}
          (noMessages, ())) =
     Inr (Element ''oai'' ''ListRecords'' []
       [Element ''oai'' ''record'' [] [Text ''I''],
        Element ''oai'' ''record'' [] [Text ''II''],
        Element ''oai'' ''record'' [] [Text ''IIII''],
        Element ''oai'' ''record'' [] [Text ''IIIII'']]) \<and>
   fst (snd (getDCListRecordsElement exampleIdent exampleMakeRecord [1, 2, 3, 4, 5]
               {''ivo_managed''} (noMessages, ()))) =
     \<lparr>errors = [''Cannot create registry record for ex/q#III because mandatory meta title''
                 @ '' is missing''],
      warnings = []\<rparr>"
proof -
  have b: "builtRecords (recordOutcomes exampleMakeRecord {''ivo_managed''} [1, 2, 3, 4, 5] ()) =
       [Element ''oai'' ''record'' [] [Text ''I''],
        Element ''oai'' ''record'' [] [Text ''II''],
        Element ''oai'' ''record'' [] [Text ''IIII''],
        Element ''oai'' ''record'' [] [Text ''IIIII'']]"
    by code_simp
  have f: "failureReports exampleIdent
       (recordOutcomes exampleMakeRecord {''ivo_managed''} [1, 2, 3, 4, 5] ()) =
     [''Cannot create registry record for ex/q#III because mandatory meta title''
        @ '' is missing'']"
    by code_simp
  show ?thesis
    using listRecords_isolates_failures [of exampleMakeRecord "{''ivo_managed''}"
        "[1, 2, 3, 4, 5]" "()" exampleIdent noMessages] b f
    by (auto simp: noMessages_def)
qed

end
